theory Spec2Isabelle
  imports Complex_Main "HOL-Library.Multiset"
begin

section \<open>ZGraf: entities, collision, projection and the tunnel's draw pass\<close>

text \<open>
  A shallow embedding of the JavaScript sources \<^verbatim>\<open>config.js\<close>, \<^verbatim>\<open>objects/vis.js\<close>,
  \<^verbatim>\<open>objects/sshot.js\<close>, \<^verbatim>\<open>objects/pshot.js\<close>, \<^verbatim>\<open>projection.js\<close> and \<^verbatim>\<open>tunnel.js\<close>,
  with the shape tables and constructors of the cross, saucer, aphid, thing and grabber.

  Numbers are modelled at two levels. Where a property depends on how binary64 rounds (the
  lane offsets of the formation animation, the screen x of the two stereo eyes), every
  arithmetic operation of the code is followed by the rounding \<open>binary64\<close>. Elsewhere the
  operations are exact operations on reals. NaN and the infinities are not values of the
  model; the one field the code leaves \<^verbatim>\<open>undefined\<close> and then computes with, the
  thickness of a blocker, is an option. Step counters and array indices are naturals.
  Mutation of \<^verbatim>\<open>this\<close> is explicit state passing: a method takes the entity and
  returns the updated entity.
\<close>

subsection \<open>Configuration (config.js)\<close>

text \<open>
  The fields of \<^verbatim>\<open>CONFIG\<close> that the modelled functions read, flattened:
  \<^verbatim>\<open>CONFIG.TUNNEL.left\<close> is \<open>TUNNEL_left\<close> and so on. \<^verbatim>\<open>screenPlaneZ\<close> may be
  \<^verbatim>\<open>null\<close> in the source ("Set to 0 or null to disable"), hence the option.
\<close>

record config =
  WIDTH :: real
  HEIGHT :: real
  STEREO_eyeToScreen :: real
  STEREO_screenPlaneZ :: "real option"
  SPEED_FACTOR :: real
  TUNNEL_left :: real
  TUNNEL_right :: real
  TUNNEL_top :: real
  TUNNEL_bottom :: real
  TUNNEL_near :: real
  TUNNEL_far :: real
  TUNNEL_length :: real

definition CONFIG :: config where
  "CONFIG = \<lparr> WIDTH = 640, HEIGHT = 480,
     STEREO_eyeToScreen = 50, STEREO_screenPlaneZ = Some 5000,
     SPEED_FACTOR = 0.5,
     TUNNEL_left = -32000, TUNNEL_right = 32000,
     TUNNEL_top = -32000, TUNNEL_bottom = 32000,
     TUNNEL_near = 30, TUNNEL_far = 65000, TUNNEL_length = 65000 \<rparr>"

subsection \<open>Binary64 arithmetic\<close>

text \<open>
  A finite binary64 number is an integer multiple of \<open>2^(e - 52)\<close>, of magnitude at most
  \<open>2^53\<close> in that unit, for an exponent \<open>e\<close> from \<open>-1022\<close> to \<open>1023\<close>; the subnormal
  numbers share the exponent \<open>-1022\<close>. Each arithmetic operation of JavaScript returns
  the binary64 number nearest to the exact result, a tie going to the even multiple.

  \<open>rne\<close> rounds a real to the nearest integer, ties to even.
\<close>

definition rne :: "real \<Rightarrow> int" where
  "rne r = (let f = \<lfloor>r\<rfloor>; frac = r - of_int f
            in if frac < 1 / 2 then f
               else if frac > 1 / 2 then f + 1
               else if even f then f else f + 1)"

text \<open>
  \<open>binade v\<close> is the exponent \<open>e\<close> with \<open>2^e \<le> |v| < 2^(e + 1)\<close>, found by halving
  or doubling, and never below \<open>-1022\<close>.
\<close>

function binadeUp :: "real \<Rightarrow> int \<Rightarrow> int" where
  "binadeUp m e = (if 2 \<le> m then binadeUp (m / 2) (e + 1) else e)"
  by pat_completeness auto
termination
proof (relation "measure (\<lambda>(m, e). nat \<lfloor>m\<rfloor>)")
  show "wf (measure (\<lambda>(m, e). nat \<lfloor>m\<rfloor>))" by simp
next
  fix m :: real and e :: int
  assume "2 \<le> m"
  then have "\<lfloor>m / 2\<rfloor> < \<lfloor>m\<rfloor>" "0 < \<lfloor>m\<rfloor>" by linarith+
  then show "((m / 2, e + 1), (m, e)) \<in> measure (\<lambda>(m, e). nat \<lfloor>m\<rfloor>)"
    by simp
qed

function binadeDown :: "real \<Rightarrow> int \<Rightarrow> int" where
  "binadeDown m e = (if m < 1 \<and> - 1022 < e then binadeDown (2 * m) (e - 1) else e)"
  by pat_completeness auto
termination
  by (relation "measure (\<lambda>(m, e). nat (e + 1022))") auto

declare binadeUp.simps [simp del] binadeDown.simps [simp del]

definition binade :: "real \<Rightarrow> int" where
  "binade v = (if 1 \<le> \<bar>v\<bar> then binadeUp \<bar>v\<bar> 0 else binadeDown \<bar>v\<bar> 0)"

text \<open>
  \<open>binary64 v\<close> is the binary64 number nearest to \<open>v\<close>. A result of magnitude \<open>2^1024\<close>
  or more is \<^verbatim>\<open>Infinity\<close> in JavaScript and has no counterpart here: the properties
  below bound their operands well under that.
\<close>

definition binary64 :: "real \<Rightarrow> real" where
  "binary64 v = (let ulp = 2 powi (binade v - 52) in of_int (rne (v / ulp)) * ulp)"

subsection \<open>Projection (projection.js)\<close>

text \<open>The module-level eye position, set by \<^verbatim>\<open>setEyePosition\<close>.\<close>

record eye =
  eyeX :: real
  eyeY :: real
  eyeZ :: real

definition setEyePosition :: "real \<Rightarrow> real \<Rightarrow> real \<Rightarrow> eye" where
  "setEyePosition ex ey ez = \<lparr> eyeX = ex, eyeY = ey, eyeZ = ez \<rparr>"

text \<open>The object \<^verbatim>\<open>{ x, y, visible }\<close> that \<^verbatim>\<open>projectPoint\<close> returns.\<close>

record projected =
  x :: real
  y :: real
  visible :: bool

text \<open>
  \<^verbatim>\<open>projectPoint(worldX, worldY, worldZ, eyeOffsetX)\<close>. It reads the current \<^verbatim>\<open>CONFIG\<close>
  (whose \<^verbatim>\<open>WIDTH\<close> and \<^verbatim>\<open>HEIGHT\<close> change on resize) and the module's eye position, both
  passed here as arguments. The test \<^verbatim>\<open>screenPlaneZ && eyeOffsetX !== 0\<close> is false for
  \<^verbatim>\<open>null\<close> and for \<open>0\<close>. The divisions are by \<open>relZ > near\<close> and by a non-zero
  \<open>screenPlaneZ\<close>; with a negative \<open>near\<close> a division by zero (JavaScript: an infinity or
  NaN, here \<open>0\<close>) would be reachable, and no property below relies on that case.
\<close>

definition projectPoint :: "config \<Rightarrow> eye \<Rightarrow> real \<Rightarrow> real \<Rightarrow> real \<Rightarrow> real \<Rightarrow> projected" where
  "projectPoint cfg ey worldX worldY worldZ eyeOffsetX =
     (let relZ = worldZ - eyeZ ey in
      if relZ \<le> TUNNEL_near cfg then \<lparr> x = 0, y = 0, visible = False \<rparr>
      else if relZ > TUNNEL_far cfg then \<lparr> x = 0, y = 0, visible = False \<rparr>
      else
        (let eyeToScreen = STEREO_eyeToScreen cfg;
             screenPlaneZ = STEREO_screenPlaneZ cfg;
             screenX0 = ((worldX - eyeX ey - eyeOffsetX) * eyeToScreen) / relZ;
             screenY = ((worldY - eyeY ey) * eyeToScreen) / relZ;
             screenX = (case screenPlaneZ of
                          Some spz \<Rightarrow>
                            if spz \<noteq> 0 \<and> eyeOffsetX \<noteq> 0
                            then screenX0 + (eyeOffsetX * eyeToScreen) / spz
                            else screenX0
                        | None \<Rightarrow> screenX0)
         in \<lparr> x = screenX + WIDTH cfg / 2, y = screenY + HEIGHT cfg / 2, visible = True \<rparr>))"

text \<open>
  \<^verbatim>\<open>projectPoint\<close> once more, now with every operation rounded as the code rounds it:
  the subtraction \<^verbatim>\<open>worldZ - eyeZ\<close>, then \<^verbatim>\<open>((worldX - eyeX - eyeOffsetX) * eyeToScreen) / relZ\<close>
  from left to right, the correction term, and the two final additions of half the canvas
  size. The arguments are numbers of the program, so binary64 values already.
\<close>

definition projectPoint64 :: "config \<Rightarrow> eye \<Rightarrow> real \<Rightarrow> real \<Rightarrow> real \<Rightarrow> real \<Rightarrow> projected" where
  "projectPoint64 cfg ey worldX worldY worldZ eyeOffsetX =
     (let relZ = binary64 (worldZ - eyeZ ey) in
      if relZ \<le> TUNNEL_near cfg then \<lparr> x = 0, y = 0, visible = False \<rparr>
      else if relZ > TUNNEL_far cfg then \<lparr> x = 0, y = 0, visible = False \<rparr>
      else
        (let eyeToScreen = STEREO_eyeToScreen cfg;
             screenPlaneZ = STEREO_screenPlaneZ cfg;
             screenX0 = binary64 (binary64 (binary64 (binary64 (worldX - eyeX ey) - eyeOffsetX)
                                              * eyeToScreen) / relZ);
             screenY = binary64 (binary64 (binary64 (worldY - eyeY ey) * eyeToScreen) / relZ);
             screenX = (case screenPlaneZ of
                          Some spz \<Rightarrow>
                            if spz \<noteq> 0 \<and> eyeOffsetX \<noteq> 0
                            then binary64 (screenX0
                                   + binary64 (binary64 (eyeOffsetX * eyeToScreen) / spz))
                            else screenX0
                        | None \<Rightarrow> screenX0)
         in \<lparr> x = binary64 (screenX + binary64 (WIDTH cfg / 2)),
              y = binary64 (screenY + binary64 (HEIGHT cfg / 2)), visible = True \<rparr>))"

subsection \<open>Entities (objects/vis.js)\<close>

text \<open>The explosion/formation record \<^verbatim>\<open>this.expl\<close>.\<close>

record expl =
  xLine :: "real list"
  yLine :: "real list"
  xOffset :: "real list"
  yOffset :: "real list"
  distIncr :: real
  xHitLine :: nat
  yHitLine :: nat
  step :: nat
  lastStep :: nat

text \<open>
  The class of an entity (\<^verbatim>\<open>constructor.name\<close>); \<open>Vis\<close> is the base class itself.
  It selects the overridden methods (\<^verbatim>\<open>getCollisionRects\<close>, \<^verbatim>\<open>initExpl\<close>, \<^verbatim>\<open>update\<close>).
\<close>

datatype kind = Vis | Cross | Saucer | Aphid | Blocker | Thing | Grabber | TestSquare
  | PShot | SShot | Player

text \<open>
  The fields of \<^verbatim>\<open>Vis\<close> and of its subclasses that the modelled methods read or write.
  \<^verbatim>\<open>formAccum\<close>, \<^verbatim>\<open>explAccum\<close> and \<^verbatim>\<open>distanceTraveled\<close> are \<^verbatim>\<open>undefined\<close> until
  first written (\<open>None\<close>); \<^verbatim>\<open>expl\<close> is \<^verbatim>\<open>null\<close> or a record. The list links and the
  back reference to the tunnel are left out. A \<^verbatim>\<open>Blocker\<close> takes its \<^verbatim>\<open>thick\<close> from
  \<^verbatim>\<open>CONFIG.ENEMIES.blocker.thick\<close>, an entry that \<^verbatim>\<open>config.js\<close> does not define, so the
  field is \<^verbatim>\<open>undefined\<close> there: \<open>thick\<close> is \<open>None\<close> for it and \<open>Some\<close> of a number for
  every other class.
\<close>

record vis =
  kind :: kind
  x :: real
  y :: real
  z :: real
  vx :: real
  vy :: real
  vz :: real
  extentX :: real
  extentY :: real
  thick :: "real option"
  isProcessed :: bool
  pleaseRemove :: bool
  checkCollide :: bool
  shade :: real
  isExploding :: bool
  isForming :: bool
  expl :: "expl option"
  shapeScale :: real
  formAccum :: "real option"
  explAccum :: "real option"
  lifeTime :: real
  maxLifeTime :: real
  distanceTraveled :: "real option"

text \<open>
  JavaScript's \<^verbatim>\<open>a % b\<close> on numbers: the remainder of the division truncated toward
  zero, so the result has the sign of \<open>a\<close>.
\<close>

definition jsRem :: "real \<Rightarrow> real \<Rightarrow> real" where
  "jsRem a b = a - b * of_int (if 0 \<le> a / b then \<lfloor>a / b\<rfloor> else \<lceil>a / b\<rceil>)"

text \<open>\<^verbatim>\<open>wrapZ()\<close>: \<^verbatim>\<open>this.z = ((this.z % len) + len) % len\<close>.\<close>

definition wrapZ :: "vis \<Rightarrow> vis" where
  "wrapZ e = (let len = TUNNEL_length CONFIG in e\<lparr> z := jsRem (jsRem (z e) len + len) len \<rparr>)"

text \<open>\<^verbatim>\<open>getZFromPlayer(playerZ)\<close>: the signed depth from the player, corrected once by the
  tunnel length.\<close>

definition getZFromPlayer :: "vis \<Rightarrow> real \<Rightarrow> real" where
  "getZFromPlayer e playerZ =
    (let len = TUNNEL_length CONFIG;
         relZ = z e - playerZ
     in if relZ > len / 2 then relZ - len
        else if relZ < - len / 2 then relZ + len
        else relZ)"

text \<open>The constructor \<^verbatim>\<open>new Vis(x, y, z)\<close>. The base class sets no \<^verbatim>\<open>shapeScale\<close>,
  \<^verbatim>\<open>lifeTime\<close> or \<^verbatim>\<open>maxLifeTime\<close>; no base-class method reads them.\<close>

definition newVis :: "real \<Rightarrow> real \<Rightarrow> real \<Rightarrow> vis" where
  "newVis px py pz = \<lparr> kind = Vis, x = px, y = py, z = pz, vx = 0, vy = 0, vz = 0,
     extentX = 100, extentY = 100, thick = Some 30,
     isProcessed = False, pleaseRemove = False, checkCollide = True, shade = 0.8,
     isExploding = False, isForming = False, expl = None,
     shapeScale = 1, formAccum = None, explAccum = None,
     lifeTime = 0, maxLifeTime = 0, distanceTraveled = None \<rparr>"

subsection \<open>The grid animation: initExpl, incrExpl, initForm, explode\<close>

text \<open>
  The search loop of \<^verbatim>\<open>initExpl\<close>,
  \<^verbatim>\<open>while (xHit > (look + xQuarter) && i <= 4) { look += xQuarter; i++; }\<close>,
  returning the final \<open>(i, look)\<close>.
\<close>

function findLine :: "real \<Rightarrow> real \<Rightarrow> nat \<Rightarrow> real \<Rightarrow> nat \<times> real" where
  "findLine hit quarter i look =
     (if hit > look + quarter \<and> i \<le> 4 then findLine hit quarter (i + 1) (look + quarter)
      else (i, look))"
  by pat_completeness auto
termination
  by (relation "measure (\<lambda>(hit, quarter, i, look). 5 - i)") auto

declare findLine.simps [simp del]

text \<open>
  The three-way choice of hit line and first-line offset that \<^verbatim>\<open>initExpl\<close> makes, once
  for x (\<open>lo = extent.left\<close>, \<open>hi = extent.right\<close>) and once, with the same code, for y.
\<close>

definition hitLine :: "real \<Rightarrow> real \<Rightarrow> real \<Rightarrow> real \<Rightarrow> nat \<times> real" where
  "hitLine hit lo hi quarter =
     (if hit \<ge> hi then (4, quarter)
      else if hit \<le> lo then (0, quarter)
      else (case findLine hit quarter 0 lo of (i, look) \<Rightarrow> (i + 1, hit - look)))"

text \<open>
  The six grid lines: \<^verbatim>\<open>line[0]\<close>, \<^verbatim>\<open>line[1]\<close> given, then
  \<^verbatim>\<open>for (i = 2; i <= 5; i++) line[i] = line[i - 1] + quarter\<close>.
\<close>

definition gridLines :: "real \<Rightarrow> real \<Rightarrow> real \<Rightarrow> real list" where
  "gridLines l0 l1 quarter =
     (let l2 = l1 + quarter; l3 = l2 + quarter; l4 = l3 + quarter; l5 = l4 + quarter
      in [l0, l1, l2, l3, l4, l5])"

text \<open>\<^verbatim>\<open>Vis.initExpl(xHit, yHit, distIncr, lastStep)\<close>, the base-class method.\<close>

definition Vis_initExpl :: "vis \<Rightarrow> real \<Rightarrow> real \<Rightarrow> real \<Rightarrow> nat \<Rightarrow> vis" where
  "Vis_initExpl e xHit yHit d n =
     (let left = - extentX e; right = extentX e; top = - extentY e; bottom = extentY e;
          xQuarter = (right - left) / 4;
          yQuarter = (bottom - top) / 4;
          (xHL, xOff) = hitLine xHit left right xQuarter;
          (yHL, yOff) = hitLine yHit top bottom yQuarter
      in e\<lparr> expl := Some \<lparr> xLine = gridLines left (left + xOff) xQuarter,
                            yLine = gridLines top (top + yOff) yQuarter,
                            xOffset = [0, 0, 0, 0, 0],
                            yOffset = [0, 0, 0, 0, 0],
                            distIncr = d,
                            xHitLine = xHL, yHitLine = yHL,
                            step = 0, lastStep = n \<rparr> \<rparr>)"

text \<open>
  \<^verbatim>\<open>initExpl\<close> as dispatched: \<^verbatim>\<open>TestSquare\<close> overrides it with
  \<^verbatim>\<open>super.initExpl(xHit, yHit, 50, 50)\<close>; every other class inherits the base method.
\<close>

definition initExpl :: "vis \<Rightarrow> real \<Rightarrow> real \<Rightarrow> real \<Rightarrow> nat \<Rightarrow> vis" where
  "initExpl e xHit yHit d n =
     (if kind e = TestSquare then Vis_initExpl e xHit yHit 50 50
      else Vis_initExpl e xHit yHit d n)"

text \<open>
  One lane walk of \<^verbatim>\<open>incrExpl\<close>, each addition and subtraction rounded to binary64. The
  loop state is the offset array and the running increment; the counted \<^verbatim>\<open>for\<close> loops
  run over their index ranges:
  \<^verbatim>\<open>for (i = hitLine; i <= 4; i++) { offset[i] += incr; incr += incr; }\<close> and
  \<^verbatim>\<open>for (i = hitLine - 1; i >= 0; i--) { offset[i] -= incr; incr += incr; }\<close>.
  Hit lines are at most 4 and the offset arrays have five entries (see
  \<open>hitLine_le_4\<close>), so no index leaves the array.
\<close>

definition laneUp :: "nat \<Rightarrow> real list \<times> real \<Rightarrow> real list \<times> real" where
  "laneUp i s = (case s of (offs, incr) \<Rightarrow>
                  (offs[i := binary64 (offs ! i + incr)], binary64 (incr + incr)))"

definition laneDown :: "nat \<Rightarrow> real list \<times> real \<Rightarrow> real list \<times> real" where
  "laneDown i s = (case s of (offs, incr) \<Rightarrow>
                    (offs[i := binary64 (offs ! i - incr)], binary64 (incr + incr)))"

definition walkLanes :: "nat \<Rightarrow> real \<Rightarrow> real list \<Rightarrow> real list" where
  "walkLanes hl d offs =
     (let offs1 = fst (fold laneUp [hl..<5] (offs, d));
          offs2 = fst (fold laneDown (rev [0..<hl]) (offs1, d))
      in offs2)"

text \<open>\<^verbatim>\<open>incrExpl()\<close>: returns whether the animation is finished, and the entity.\<close>

definition incrExpl :: "vis \<Rightarrow> bool \<times> vis" where
  "incrExpl e =
     (case expl e of
        None \<Rightarrow> (True, e)
      | Some ex \<Rightarrow>
          (let ex1 = ex\<lparr> xOffset := walkLanes (xHitLine ex) (distIncr ex) (xOffset ex) \<rparr>;
               ex2 = ex1\<lparr> yOffset := walkLanes (yHitLine ex1) (distIncr ex1) (yOffset ex1) \<rparr>;
               ex3 = ex2\<lparr> step := step ex2 + 1 \<rparr>
           in (step ex3 \<ge> lastStep ex3, e\<lparr> expl := Some ex3 \<rparr>)))"

text \<open>The grid lines of \<^verbatim>\<open>initForm\<close>, each addition rounded.\<close>

definition gridLines64 :: "real \<Rightarrow> real \<Rightarrow> real \<Rightarrow> real list" where
  "gridLines64 l0 l1 quarter =
     (let l2 = binary64 (l1 + quarter); l3 = binary64 (l2 + quarter);
          l4 = binary64 (l3 + quarter); l5 = binary64 (l4 + quarter)
      in [l0, l1, l2, l3, l4, l5])"

text \<open>
  \<^verbatim>\<open>initForm(distIncr, lastStep)\<close>, every operation rounded: \<^verbatim>\<open>lastStep * distIncr\<close>,
  the products \<^verbatim>\<open>2 * baseOffset\<close> and \<^verbatim>\<open>-2 * baseOffset\<close>, the quarter extents and the
  grid lines. Negation is exact. Lane 0 copies lane 1.
\<close>

definition initForm :: "vis \<Rightarrow> real \<Rightarrow> nat \<Rightarrow> vis" where
  "initForm e d n =
     (let left = - extentX e; right = extentX e; top = - extentY e; bottom = extentY e;
          xQuarter = binary64 (binary64 (right - left) / 4);
          yQuarter = binary64 (binary64 (bottom - top) / 4);
          baseOffset = binary64 (real n * d);
          offsets = [binary64 (- 2 * baseOffset), binary64 (- 2 * baseOffset), - baseOffset,
                     baseOffset, binary64 (2 * baseOffset)]
      in e\<lparr> expl := Some \<lparr> xLine = gridLines64 left left xQuarter,
                            yLine = gridLines64 top top yQuarter,
                            xOffset = offsets,
                            yOffset = offsets,
                            distIncr = - d,
                            xHitLine = 3, yHitLine = 3,
                            step = 0, lastStep = n \<rparr> \<rparr>)"

text \<open>\<^verbatim>\<open>explode(xHit, yHit)\<close>; the defaults \<^verbatim>\<open>xHit = 0, yHit = 0\<close> are the caller's to pass.\<close>

definition explode :: "vis \<Rightarrow> real \<Rightarrow> real \<Rightarrow> vis" where
  "explode e xHit yHit =
     (if \<not> isExploding e then
        (let e1 = e\<lparr> isExploding := True, checkCollide := False, explAccum := Some 0 \<rparr>;
             relX = xHit - x e1;
             relY = yHit - y e1
         in initExpl e1 relX relY 125 25)
      else e)"

subsection \<open>Collision (objects/vis.js and the shape tables of the subclasses)\<close>

text \<open>A collision rectangle \<^verbatim>\<open>{ left, top, right, bottom }\<close>.\<close>

record rect =
  left :: real
  top' :: real
  right :: real
  bottom :: real

text \<open>
  The shape tables, reduced to the four coordinates \<^verbatim>\<open>[left, top, right, bottom]\<close> that
  \<^verbatim>\<open>getCollisionRects\<close> destructures (the trailing shade and fill entries are for drawing).
\<close>

definition mkRect :: "real \<Rightarrow> real \<Rightarrow> real \<Rightarrow> real \<Rightarrow> rect" where
  "mkRect l t r b = \<lparr> left = l, top' = t, right = r, bottom = b \<rparr>"

definition CROSS_SHAPE :: "rect list" where
  "CROSS_SHAPE = [mkRect (-32) (-16) 32 (-3), mkRect (-32) 3 32 16,
                  mkRect (-16) (-32) (-3) 32, mkRect 3 (-32) 16 32]"

definition SAUCER_SHAPE :: "rect list" where
  "SAUCER_SHAPE = [mkRect 16 (-4) 20 4, mkRect 12 (-4) 16 4, mkRect 8 (-4) 12 4,
                   mkRect 4 (-4) 8 4, mkRect 0 (-4) 4 4, mkRect (-4) (-4) 0 4,
                   mkRect (-8) (-4) (-4) 4, mkRect (-12) (-4) (-8) 4, mkRect (-16) (-4) (-12) 4,
                   mkRect (-20) (-4) (-16) 4, mkRect (-20) (-2) 20 2]"

definition APHID_SHAPE :: "rect list" where
  "APHID_SHAPE = [mkRect (-2) (-25) 2 25, mkRect (-25) (-2) 25 2, mkRect (-12) (-12) 12 12]"

definition THING_SHAPE :: "rect list" where
  "THING_SHAPE = [mkRect (-10) (-10) 10 10, mkRect (-10) (-10) 10 10, mkRect (-8) (-8) 8 8,
                  mkRect (-6) (-6) 6 6, mkRect (-5) (-5) 5 5, mkRect (-3) (-3) 3 3,
                  mkRect (-1) (-3) 1 3, mkRect (-3) (-1) 3 1]"

definition GRABBER_SHAPE :: "rect list" where
  "GRABBER_SHAPE = [mkRect (-7) (-32) 7 (-30), mkRect (-13) (-30) 13 (-20),
                    mkRect (-30) (-27) 29 (-23), mkRect (-30) (-23) (-18) 32,
                    mkRect (-18) 25 (-14) 28, mkRect (-18) 28 (-11) 32,
                    mkRect 12 25 16 28, mkRect 9 28 16 32, mkRect 16 (-23) 29 32]"

text \<open>The body of \<^verbatim>\<open>SHAPE.map(([left, top, right, bottom]) => ({left: left * s, ...}))\<close>.\<close>

definition scaleRect :: "real \<Rightarrow> rect \<Rightarrow> rect" where
  "scaleRect s r = \<lparr> left = left r * s, top' = top' r * s, right = right r * s, bottom = bottom r * s \<rparr>"

text \<open>
  \<^verbatim>\<open>getCollisionRects()\<close>: Cross, Saucer, Aphid, Thing and Grabber override it with their
  scaled shape table; every other class inherits the single extent rectangle.
\<close>

definition getCollisionRects :: "vis \<Rightarrow> rect list" where
  "getCollisionRects e =
     (case kind e of
        Cross \<Rightarrow> map (scaleRect (shapeScale e)) CROSS_SHAPE
      | Saucer \<Rightarrow> map (scaleRect (shapeScale e)) SAUCER_SHAPE
      | Aphid \<Rightarrow> map (scaleRect (shapeScale e)) APHID_SHAPE
      | Thing \<Rightarrow> map (scaleRect (shapeScale e)) THING_SHAPE
      | Grabber \<Rightarrow> map (scaleRect (shapeScale e)) GRABBER_SHAPE
      | _ \<Rightarrow> [\<lparr> left = - extentX e, top' = - extentY e, right = extentX e, bottom = extentY e \<rparr>])"

text \<open>The overlap test of \<^verbatim>\<open>deepCollide\<close> on one pair of rectangles, each translated to
  world coordinates by its owner's position.\<close>

definition rectsOverlap :: "vis \<Rightarrow> rect \<Rightarrow> vis \<Rightarrow> rect \<Rightarrow> bool" where
  "rectsOverlap a r1 b r2 =
     (let r1Left = left r1 + x a; r1Right = right r1 + x a;
          r1Top = top' r1 + y a; r1Bottom = bottom r1 + y a;
          r2Left = left r2 + x b; r2Right = right r2 + x b;
          r2Top = top' r2 + y b; r2Bottom = bottom r2 + y b
      in \<not> (r1Left > r2Right) \<and> \<not> (r1Right < r2Left) \<and> \<not> (r1Bottom < r2Top) \<and> \<not> (r1Top > r2Bottom))"

text \<open>\<^verbatim>\<open>deepCollide(other)\<close>: the two nested loops return true at the first overlapping pair.\<close>

definition deepCollide :: "vis \<Rightarrow> vis \<Rightarrow> bool" where
  "deepCollide a b =
     list_ex (\<lambda>r1. list_ex (\<lambda>r2. rectsOverlap a r1 b r2) (getCollisionRects b)) (getCollisionRects a)"

text \<open>
  Phase 1 of \<^verbatim>\<open>collidesWith\<close>: the velocity-extended box test, \<open>True\<close> when none of the
  five early \<^verbatim>\<open>return false\<close> statements fires. \<^verbatim>\<open>Math.abs(this.vx || 0)\<close> is \<open>\<bar>vx\<bar>\<close>.
  The two depth corrections are separate \<^verbatim>\<open>if\<close> statements, the second reading the result
  of the first. With an \<^verbatim>\<open>undefined\<close> thickness the sums \<^verbatim>\<open>thisThick\<close>, \<^verbatim>\<open>otherThick\<close> and
  \<^verbatim>\<open>combinedThick\<close> are NaN (\<open>None\<close>), the comparison \<^verbatim>\<open>Math.abs(zDiff) > combinedThick\<close>
  is false and the depth test does not reject.
\<close>

definition broadPhase :: "vis \<Rightarrow> vis \<Rightarrow> bool" where
  "broadPhase a b =
     (let thisExtentX = extentX a + \<bar>vx a\<bar>;
          thisExtentY = extentY a + \<bar>vy a\<bar>;
          thisThick = (case thick a of Some t \<Rightarrow> Some (t + \<bar>vz a\<bar>) | None \<Rightarrow> None);
          otherExtentX = extentX b + \<bar>vx b\<bar>;
          otherExtentY = extentY b + \<bar>vy b\<bar>;
          otherThick = (case thick b of Some t \<Rightarrow> Some (t + \<bar>vz b\<bar>) | None \<Rightarrow> None)
      in if x a + thisExtentX < x b - otherExtentX then False
         else if x a - thisExtentX > x b + otherExtentX then False
         else if y a + thisExtentY < y b - otherExtentY then False
         else if y a - thisExtentY > y b + otherExtentY then False
         else
           (let len = TUNNEL_length CONFIG;
                zDiff0 = z b - z a;
                zDiff1 = (if zDiff0 > len / 2 then zDiff0 - len else zDiff0);
                zDiff = (if zDiff1 < - len / 2 then zDiff1 + len else zDiff1);
                combinedThick = (case thisThick of
                                   Some p \<Rightarrow> (case otherThick of
                                                Some q \<Rightarrow> Some (p + q) | None \<Rightarrow> None)
                                 | None \<Rightarrow> None)
            in case combinedThick of
                 Some c \<Rightarrow> (if \<bar>zDiff\<bar> > c then False else True)
               | None \<Rightarrow> True))"

text \<open>\<^verbatim>\<open>collidesWith(other)\<close>: the three guards, phase 1, then the narrow phase.\<close>

definition collidesWith :: "vis \<Rightarrow> vis \<Rightarrow> bool" where
  "collidesWith a b =
     (if \<not> checkCollide a \<or> \<not> checkCollide b then False
      else if isExploding a \<or> isExploding b then False
      else if isForming a \<or> isForming b then False
      else if \<not> broadPhase a b then False
      else deepCollide a b)"

subsection \<open>Subclass constructors and the two projectile updates\<close>

text \<open>The constructors, as far as they set modelled fields.\<close>

definition newCross :: "real \<Rightarrow> real \<Rightarrow> real \<Rightarrow> vis" where
  "newCross px py pz = (newVis px py pz)\<lparr> kind := Cross, shapeScale := 150,
     extentX := 32 * 150, extentY := 32 * 150, thick := Some 30, shade := 0.8,
     vx := 0, vy := 0, vz := 0 \<rparr>"

definition newSaucer :: "real \<Rightarrow> real \<Rightarrow> real \<Rightarrow> vis" where
  "newSaucer px py pz = (newVis px py pz)\<lparr> kind := Saucer, shapeScale := 100,
     extentX := 20 * 100, extentY := 4 * 100, thick := Some 30, shade := 0.9,
     vx := 0, vy := 0, vz := 0 \<rparr>"

text \<open>For the aphid, \<open>rnd\<close> is the value \<^verbatim>\<open>Math.random()\<close> returns for the z velocity; its
  flocking fields are not modelled.\<close>

definition newAphid :: "real \<Rightarrow> real \<Rightarrow> real \<Rightarrow> real \<Rightarrow> vis" where
  "newAphid px py pz rnd = (newVis px py pz)\<lparr> kind := Aphid, shapeScale := 14,
     extentX := 25 * 14, extentY := 25 * 14, thick := Some 20, shade := 0.6,
     vz := (rnd - 0.5) * 200 * SPEED_FACTOR CONFIG \<rparr>"

definition newThing :: "real \<Rightarrow> real \<Rightarrow> real \<Rightarrow> vis" where
  "newThing px py pz = (newVis px py pz)\<lparr> kind := Thing, shapeScale := 200,
     extentX := 10 * 200, extentY := 10 * 200, thick := Some 25, shade := 1.0,
     vx := 0, vy := 0, vz := 0 \<rparr>"

definition newGrabber :: "real \<Rightarrow> real \<Rightarrow> real \<Rightarrow> vis" where
  "newGrabber px py pz = (newVis px py pz)\<lparr> kind := Grabber, shapeScale := 150,
     extentX := 30 * 150, extentY := 32 * 150, thick := Some 30, shade := 0.6,
     vx := 0, vy := 0, vz := 0 \<rparr>"

text \<open>
  \<^verbatim>\<open>new Blocker(x, y, z, isHorz, width)\<close>, with \<open>barWidth\<close> the given width or the random
  one the constructor draws. The bar spans the tunnel on one axis; \<^verbatim>\<open>thick\<close> is read from
  the missing configuration entry.
\<close>

definition newBlocker :: "real \<Rightarrow> real \<Rightarrow> real \<Rightarrow> bool \<Rightarrow> real \<Rightarrow> vis" where
  "newBlocker px py pz isHorz barWidth =
     (if isHorz
      then (newVis px py pz)\<lparr> kind := Blocker,
             extentX := (TUNNEL_right CONFIG - TUNNEL_left CONFIG) / 2, extentY := barWidth,
             thick := None, shade := 0.3, vx := 0, vy := 0, vz := 0 \<rparr>
      else (newVis px py pz)\<lparr> kind := Blocker,
             extentX := barWidth, extentY := (TUNNEL_bottom CONFIG - TUNNEL_top CONFIG) / 2,
             thick := None, shade := 0.3, vx := 0, vy := 0, vz := 0 \<rparr>)"

definition newPShot :: "real \<Rightarrow> real \<Rightarrow> real \<Rightarrow> vis" where
  "newPShot px py pz = (newVis px py pz)\<lparr> kind := PShot, shapeScale := 14,
     extentX := 12 * 14, extentY := 12 * 14, thick := Some 40, shade := 1.0,
     checkCollide := True, isForming := False \<rparr>"

definition newSShot :: "real \<Rightarrow> real \<Rightarrow> real \<Rightarrow> vis" where
  "newSShot px py pz = (newVis px py pz)\<lparr> kind := SShot, shapeScale := 50,
     extentX := 8 * 50, extentY := 8 * 50, thick := Some 30, shade := 0.9,
     checkCollide := True, isForming := False, lifeTime := 0, maxLifeTime := 5000 \<rparr>"

text \<open>
  \<^verbatim>\<open>SShot.update(dt)\<close> (objects/sshot.js). It overrides \<^verbatim>\<open>Vis.update\<close> without calling
  it, moves on all three axes, and does not call \<^verbatim>\<open>wrapZ\<close>.
\<close>

definition SShot_update :: "vis \<Rightarrow> real \<Rightarrow> vis" where
  "SShot_update e dt =
     (let dtScale = dt / 16.67;
          e1 = e\<lparr> x := x e + vx e * dtScale \<rparr>;
          e2 = e1\<lparr> y := y e1 + vy e1 * dtScale \<rparr>;
          e3 = e2\<lparr> z := z e2 + vz e2 * dtScale \<rparr>;
          e4 = e3\<lparr> lifeTime := lifeTime e3 + dt \<rparr>;
          e5 = (if lifeTime e4 > maxLifeTime e4 then e4\<lparr> pleaseRemove := True \<rparr> else e4)
      in if x e5 < TUNNEL_left CONFIG \<or> x e5 > TUNNEL_right CONFIG
            \<or> y e5 < TUNNEL_top CONFIG \<or> y e5 > TUNNEL_bottom CONFIG
         then e5\<lparr> pleaseRemove := True \<rparr> else e5)"

text \<open>
  \<^verbatim>\<open>PShot.update(dt)\<close> (objects/pshot.js), the other projectile: it moves along z and
  wraps. \<^verbatim>\<open>(this.distanceTraveled || 0)\<close> reads \<open>0\<close> for \<^verbatim>\<open>undefined\<close>.
\<close>

definition PShot_update :: "vis \<Rightarrow> real \<Rightarrow> vis" where
  "PShot_update e dt =
     (let dtScale = dt / 16.67;
          e1 = e\<lparr> z := z e + vz e * dtScale \<rparr>;
          e2 = wrapZ e1;
          frameDistance = \<bar>vz e2 * dtScale\<bar>;
          travelled = (case distanceTraveled e2 of None \<Rightarrow> 0 | Some d \<Rightarrow> d) + frameDistance;
          e3 = e2\<lparr> distanceTraveled := Some travelled \<rparr>
      in if travelled > TUNNEL_far CONFIG then e3\<lparr> pleaseRemove := True \<rparr> else e3)"

subsection \<open>The tunnel's draw pass (tunnel.js)\<close>






text \<open>
  Whether every collision rectangle of an entity lies inside the entity's extent box. The
  constructors establish it: each shape table spans at most the extents its class sets.
\<close>

definition rectsWithinExtents :: "vis \<Rightarrow> bool" where
  "rectsWithinExtents e =
     list_all (\<lambda>r. - extentX e \<le> left r \<and> right r \<le> extentX e
                  \<and> - extentY e \<le> top' r \<and> bottom r \<le> extentY e) (getCollisionRects e)"

section \<open>Properties\<close>

subsection \<open>Rounding to binary64\<close>

text \<open>The rounding is odd, moves a value by at most half a unit of its binade, and leaves
  integers below \<open>2^53\<close> alone.\<close>

lemma powi2_add1: "(2::real) powi (k + 1) = 2 * 2 powi k"
  by (simp add: power_int_add)

lemma powi2_le_one: "k \<le> 0 \<Longrightarrow> (2::real) powi k \<le> 1"
  using power_int_increasing [of k 0 "2::real"] by simp

lemma rne_err: "\<bar>of_int (rne r) - r\<bar> \<le> 1 / 2"
  unfolding rne_def Let_def by (auto; linarith)

lemma rne_of_int: "rne (of_int k) = k"
  by (simp add: rne_def)

lemma rne_minus: "rne (- r) = - rne r"
proof (cases "r \<in> \<int>")
  case True
  then obtain k where "r = of_int k" by (auto elim: Ints_cases)
  then have "- r = of_int (- k)" by simp
  then show ?thesis using \<open>r = of_int k\<close> rne_of_int by metis
next
  case False
  then have "r \<noteq> of_int \<lfloor>r\<rfloor>"
    by (metis Ints_of_int)
  then have fl: "\<lfloor>- r\<rfloor> = - \<lfloor>r\<rfloor> - 1"
    by (simp add: floor_minus ceiling_altdef)
  have fr: "r - of_int \<lfloor>r\<rfloor> < 1" "0 \<le> r - of_int \<lfloor>r\<rfloor>" by linarith+
  show ?thesis
    unfolding rne_def Let_def fl using fr by (auto simp: algebra_simps)
qed

lemma binadeUp_ge: "e \<le> binadeUp m e"
proof (induction m e rule: binadeUp.induct)
  case (1 m e)
  show ?case
  proof (cases "2 \<le> m")
    case True
    with 1 have "e + 1 \<le> binadeUp (m / 2) (e + 1)" by simp
    with True show ?thesis by (subst binadeUp.simps) simp
  next
    case False
    then show ?thesis by (subst binadeUp.simps) simp
  qed
qed

lemma binadeUp_le: "e \<le> k \<Longrightarrow> m < 2 powi (k + 1 - e) \<Longrightarrow> binadeUp m e \<le> k"
proof (induction m e rule: binadeUp.induct)
  case (1 m e)
  show ?case
  proof (cases "2 \<le> m")
    case True
    have "2 powi (k + 1 - e) = 2 * (2::real) powi (k + 1 - (e + 1))"
      using powi2_add1 [of "k - e"] by (simp add: algebra_simps)
    with "1.prems" True have m2: "m / 2 < 2 powi (k + 1 - (e + 1))" by simp
    have "e + 1 \<le> k"
    proof (rule ccontr)
      assume "\<not> e + 1 \<le> k"
      with "1.prems"(1) have "k = e" by simp
      with "1.prems"(2) True show False by simp
    qed
    with "1.IH" True m2 have "binadeUp (m / 2) (e + 1) \<le> k" by simp
    with True show ?thesis by (subst binadeUp.simps) simp
  next
    case False
    with "1.prems" show ?thesis by (subst binadeUp.simps) simp
  qed
qed

lemma binadeUp_lower: "2 powi (k - e) \<le> m \<Longrightarrow> e \<le> k \<Longrightarrow> k \<le> binadeUp m e"
proof (induction m e rule: binadeUp.induct)
  case (1 m e)
  show ?case
  proof (cases "e = k")
    case True
    then show ?thesis using binadeUp_ge [of e m] by simp
  next
    case False
    with "1.prems" have ek: "e + 1 \<le> k" by simp
    have p: "2 powi (k - e) = 2 * (2::real) powi (k - (e + 1))"
      using powi2_add1 [of "k - (e + 1)"] by (simp add: algebra_simps)
    have "(1::real) \<le> 2 powi (k - (e + 1))"
      using ek by (intro one_le_power_int) auto
    with p "1.prems"(1) have m2: "2 \<le> m" by linarith
    from p "1.prems"(1) have "2 powi (k - (e + 1)) \<le> m / 2" by simp
    with "1.IH" m2 ek have "k \<le> binadeUp (m / 2) (e + 1)" by simp
    with m2 show ?thesis by (subst binadeUp.simps) simp
  qed
qed

lemma binadeDown_le: "binadeDown m e \<le> e"
proof (induction m e rule: binadeDown.induct)
  case (1 m e)
  show ?case
  proof (cases "m < 1 \<and> - 1022 < e")
    case True
    with 1 have "binadeDown (2 * m) (e - 1) \<le> e - 1" by simp
    with True show ?thesis by (subst binadeDown.simps) simp
  next
    case False
    then show ?thesis by (subst binadeDown.simps) auto
  qed
qed

lemma binadeDown_eq:
  "- 1022 \<le> k \<Longrightarrow> k \<le> e \<Longrightarrow> 2 powi (k - e) \<le> m \<Longrightarrow> m < 2 powi (k + 1 - e)
   \<Longrightarrow> binadeDown m e = k"
proof (induction m e rule: binadeDown.induct)
  case (1 m e)
  show ?case
  proof (cases "e = k")
    case True
    with "1.prems" have "1 \<le> m" by simp
    with True show ?thesis by (subst binadeDown.simps) simp
  next
    case False
    with "1.prems" have ek: "k \<le> e - 1" "- 1022 < e" by simp_all
    have p: "2 powi (k + 1 - (e - 1)) = 2 * (2::real) powi (k + 1 - e)"
            "2 powi (k - (e - 1)) = 2 * (2::real) powi (k - e)"
      using powi2_add1 [of "k + 1 - e"] powi2_add1 [of "k - e"] by (simp_all add: algebra_simps)
    have "(2::real) powi (k + 1 - e) \<le> 1"
      using ek by (intro powi2_le_one) auto
    with "1.prems" have m1: "m < 1" by linarith
    from p "1.prems" have "2 powi (k - (e - 1)) \<le> 2 * m" "2 * m < 2 powi (k + 1 - (e - 1))"
      by simp_all
    with "1.IH" m1 ek "1.prems"(1) have "binadeDown (2 * m) (e - 1) = k" by simp
    with m1 ek show ?thesis by (subst binadeDown.simps) simp
  qed
qed

lemma binade_eq:
  assumes "- 1022 \<le> k" "2 powi k \<le> \<bar>v\<bar>" "\<bar>v\<bar> < 2 powi (k + 1)"
  shows "binade v = k"
proof (cases "1 \<le> \<bar>v\<bar>")
  case True
  have k0: "0 \<le> k"
  proof (rule ccontr)
    assume "\<not> 0 \<le> k"
    then have "k + 1 \<le> 0" by simp
    then have "(2::real) powi (k + 1) \<le> 1" by (rule powi2_le_one)
    with assms(3) True show False by linarith
  qed
  have "binadeUp \<bar>v\<bar> 0 \<le> k" using binadeUp_le [of 0 k "\<bar>v\<bar>"] k0 assms(3) by simp
  moreover have "k \<le> binadeUp \<bar>v\<bar> 0" using binadeUp_lower [of k 0 "\<bar>v\<bar>"] k0 assms(2) by simp
  ultimately show ?thesis using True by (simp add: binade_def)
next
  case False
  have k0: "k \<le> 0"
  proof (rule ccontr)
    assume "\<not> k \<le> 0"
    then have "0 \<le> k" by simp
    then have "(1::real) \<le> 2 powi k" by (intro one_le_power_int) auto
    with assms(2) False show False by linarith
  qed
  have "binadeDown \<bar>v\<bar> 0 = k"
    using binadeDown_eq [of k 0 "\<bar>v\<bar>"] assms k0 by simp
  with False show ?thesis by (simp add: binade_def)
qed

lemma binade_le:
  assumes "0 \<le> k" "\<bar>v\<bar> < 2 powi (k + 1)"
  shows "binade v \<le> k"
proof (cases "1 \<le> \<bar>v\<bar>")
  case True
  then show ?thesis using binadeUp_le [of 0 k "\<bar>v\<bar>"] assms by (simp add: binade_def)
next
  case False
  then show ?thesis using binadeDown_le [of "\<bar>v\<bar>" 0] assms(1) by (simp add: binade_def)
qed

lemma binade_ge0: "1 \<le> \<bar>v\<bar> \<Longrightarrow> 0 \<le> binade v"
  using binadeUp_ge [of 0 "\<bar>v\<bar>"] by (simp add: binade_def)

lemma binade_minus: "binade (- v) = binade v"
  by (simp add: binade_def)

lemma binary64_minus: "binary64 (- v) = - binary64 v"
  by (simp add: binary64_def Let_def binade_minus rne_minus)

lemma binary64_err: "\<bar>binary64 v - v\<bar> \<le> 2 powi (binade v - 53)"
proof -
  define ulp :: real where "ulp = 2 powi (binade v - 52)"
  have up: "0 < ulp" by (simp add: ulp_def)
  have "binary64 v - v = (of_int (rne (v / ulp)) - v / ulp) * ulp"
    using up by (simp add: binary64_def Let_def ulp_def algebra_simps)
  then have "\<bar>binary64 v - v\<bar> = \<bar>of_int (rne (v / ulp)) - v / ulp\<bar> * ulp"
    using up by (simp add: abs_mult)
  also have "\<dots> \<le> (1 / 2) * ulp"
    using rne_err [of "v / ulp"] up by (intro mult_right_mono) auto
  also have "\<dots> = 2 powi (binade v - 53)"
    using powi2_add1 [of "binade v - 53"] by (simp add: ulp_def algebra_simps)
  finally show ?thesis .
qed

lemma binary64_err_le:
  assumes "0 \<le> k" "\<bar>v\<bar> \<le> 2 powi k"
  shows "\<bar>binary64 v - v\<bar> \<le> 2 powi (k - 53)"
proof -
  have "(2::real) powi k < 2 powi (k + 1)" by (intro power_int_strict_increasing) auto
  with assms have "binade v \<le> k" by (intro binade_le) auto
  then have "(2::real) powi (binade v - 53) \<le> 2 powi (k - 53)"
    by (intro power_int_increasing) auto
  with binary64_err [of v] show ?thesis by linarith
qed

lemma binary64_of_int:
  assumes "\<bar>of_int k :: real\<bar> < 2 ^ 53"
  shows "binary64 (of_int k) = of_int k"
proof (cases "k = 0")
  case True
  then show ?thesis by (simp add: binary64_def Let_def rne_def)
next
  case False
  then have k1: "1 \<le> \<bar>of_int k :: real\<bar>"
  proof -
    from False have "1 \<le> \<bar>k\<bar>" by linarith
    then have "(of_int 1 :: real) \<le> of_int \<bar>k\<bar>" by (simp only: of_int_le_iff)
    then show ?thesis by simp
  qed
  define e where "e = binade (of_int k)"
  have e0: "0 \<le> e" using binade_ge0 [OF k1] by (simp add: e_def)
  have "\<bar>of_int k :: real\<bar> < 2 powi (52 + 1)" using assms by simp
  then have e52: "e \<le> 52" unfolding e_def by (intro binade_le) auto
  define j where "j = nat (52 - e)"
  have ulp: "(2::real) powi (e - 52) = 1 / 2 ^ j"
    using e52 by (simp add: j_def power_int_def field_simps)
  have "of_int k / (1 / 2 ^ j) = (of_int (k * 2 ^ j) :: real)" by simp
  then have "rne (of_int k / (1 / 2 ^ j)) = k * 2 ^ j" by (simp only: rne_of_int)
  then show ?thesis
    by (simp add: binary64_def Let_def e_def [symmetric] ulp)
qed

lemma binary64_eval:
  assumes "- 1022 \<le> k" "2 powi k \<le> \<bar>v\<bar>" "\<bar>v\<bar> < 2 powi (k + 1)"
  shows "binary64 v = of_int (rne (v / 2 powi (k - 52))) * 2 powi (k - 52)"
  using binade_eq [OF assms] by (simp add: binary64_def Let_def)

lemma binary64_0: "binary64 0 = 0"
  by (simp add: binary64_def rne_def)

lemma binary64_numeral:
  "(numeral n :: real) < 2 ^ 53 \<Longrightarrow> binary64 (numeral n) = numeral n"
  using binary64_of_int [of "numeral n"] by simp

lemma binary64_neg_numeral:
  "(numeral n :: real) < 2 ^ 53 \<Longrightarrow> binary64 (- numeral n) = - numeral n"
  using binary64_of_int [of "- numeral n"] by simp

lemma binary64_err_pow:
  assumes "\<bar>v\<bar> \<le> 2 ^ n"
  shows "\<bar>binary64 v - v\<bar> \<le> 2 ^ n / 2 ^ 53"
proof -
  have "\<bar>binary64 v - v\<bar> \<le> 2 powi (int n - 53)"
    using assms by (intro binary64_err_le) auto
  also have "(2::real) powi (int n - 53) = 2 ^ n / 2 ^ 53"
    by (simp add: power_int_diff)
  finally show ?thesis .
qed

lemma abs_mult_bound:
  fixes a b :: real
  assumes "\<bar>a\<bar> \<le> p" "\<bar>b\<bar> \<le> q"
  shows "\<bar>a * b\<bar> \<le> p * q"
  unfolding abs_mult using assms by (intro mult_mono) auto

lemma abs_div_bound:
  fixes a s :: real
  assumes "\<bar>a\<bar> \<le> p" "1 \<le> s"
  shows "\<bar>a / s\<bar> \<le> p"
proof -
  have "\<bar>a / s\<bar> = \<bar>a\<bar> / s" using assms(2) by simp
  also have "\<dots> \<le> \<bar>a\<bar>"
    using assms(2) mult_right_mono [of 1 s "\<bar>a\<bar>"] by (simp add: field_simps)
  finally show ?thesis using assms(1) by linarith
qed

lemma abs_tri:
  fixes a b c :: real
  assumes "\<bar>a - b\<bar> \<le> p" "\<bar>b - c\<bar> \<le> q" "p + q \<le> r"
  shows "\<bar>a - c\<bar> \<le> r"
  using assms by linarith

lemma abs_mag:
  fixes a b :: real
  assumes "\<bar>a - b\<bar> \<le> p" "\<bar>b\<bar> \<le> q" "p + q \<le> r"
  shows "\<bar>a\<bar> \<le> r"
  using assms by linarith

lemma abs_add_err:
  fixes a b c d :: real
  assumes "\<bar>a - c\<bar> \<le> p" "\<bar>b - d\<bar> \<le> q"
  shows "\<bar>(a + b) - (c + d)\<bar> \<le> p + q"
  using assms by linarith

lemma abs_add_mag:
  fixes a b :: real
  assumes "\<bar>a\<bar> \<le> p" "\<bar>b\<bar> \<le> q" "p + q \<le> r"
  shows "\<bar>a + b\<bar> \<le> r"
  using assms by linarith

lemma abs_sub_mag:
  fixes a b :: real
  assumes "\<bar>a\<bar> \<le> p" "\<bar>b\<bar> \<le> q" "p + q \<le> r"
  shows "\<bar>a - b\<bar> \<le> r"
  using assms by linarith

subsection \<open>Depth wrap-around\<close>

lemma getZFromPlayer_neg: "getZFromPlayer b (z a) = - getZFromPlayer a (z b)"
  by (simp add: getZFromPlayer_def Let_def CONFIG_def)

text \<open>
  Claim C4. For entities \<open>a\<close> and \<open>b\<close> whose depths lie in \<open>[0, L)\<close>, \<open>L = 65000\<close>, the
  periodic depth distance is antisymmetric, \<open>a.getZFromPlayer(b.z) = - b.getZFromPlayer(a.z)\<close>,
  and bounded in magnitude by \<open>L / 2\<close>.
\<close>

theorem getZFromPlayer_antisym_bounded:
  assumes "0 \<le> z a" "z a < 65000" "0 \<le> z b" "z b < 65000"
  shows "getZFromPlayer a (z b) = - getZFromPlayer b (z a)
       \<and> \<bar>getZFromPlayer a (z b)\<bar> \<le> 65000 / 2"
proof -
  have "\<bar>getZFromPlayer a (z b)\<bar> \<le> 65000 / 2"
    using assms by (auto simp: getZFromPlayer_def CONFIG_def Let_def)
  then show ?thesis
    using getZFromPlayer_neg [of a b] by simp
qed

text \<open>The scenario of the specification: A at depth 100, B at depth 64950, distance \<open>-150\<close>.\<close>

theorem getZFromPlayer_antisym_bounded_witness:
  "0 \<le> z (newVis 0 0 64950) \<and> z (newVis 0 0 64950) < 65000
   \<and> 0 \<le> z (newVis 0 0 100) \<and> z (newVis 0 0 100) < 65000
   \<and> getZFromPlayer (newVis 0 0 64950) (z (newVis 0 0 100)) = - 150
   \<and> getZFromPlayer (newVis 0 0 100) (z (newVis 0 0 64950)) = 150
   \<and> \<bar>getZFromPlayer (newVis 0 0 64950) (z (newVis 0 0 100))\<bar> \<le> 65000 / 2"
proof -
  have h: "0 \<le> z (newVis 0 0 64950)" "z (newVis 0 0 64950) < 65000"
      "0 \<le> z (newVis 0 0 100)" "z (newVis 0 0 100) < 65000"
    by (simp_all add: newVis_def)
  have v: "getZFromPlayer (newVis 0 0 64950) (z (newVis 0 0 100)) = - 150"
    by (simp add: getZFromPlayer_def CONFIG_def newVis_def Let_def)
  from getZFromPlayer_antisym_bounded [OF h] v h show ?thesis
    by simp
qed

lemma jsRem_nonneg:
  assumes "0 < b" "0 \<le> a"
  shows "0 \<le> jsRem a b \<and> jsRem a b < b"
proof -
  have q: "0 \<le> a / b" using assms by simp
  have eq: "jsRem a b = a - b * of_int \<lfloor>a / b\<rfloor>" using q by (simp add: jsRem_def)
  have ba: "b * (a / b) = a" using assms(1) by simp
  have "b * of_int \<lfloor>a / b\<rfloor> \<le> b * (a / b)"
    using assms(1) by (intro mult_left_mono) auto
  then have l: "b * of_int \<lfloor>a / b\<rfloor> \<le> a" unfolding ba .
  have "a / b < of_int \<lfloor>a / b\<rfloor> + 1" by linarith
  then have "b * (a / b) < b * (of_int \<lfloor>a / b\<rfloor> + 1)"
    using assms(1) by (intro mult_strict_left_mono) auto
  then have u: "a < b * of_int \<lfloor>a / b\<rfloor> + b" unfolding ba by (simp add: algebra_simps)
  from l u show ?thesis unfolding eq by linarith
qed

lemma jsRem_neg:
  assumes "0 < b" "a < 0"
  shows "- b < jsRem a b \<and> jsRem a b \<le> 0"
proof -
  have q: "\<not> 0 \<le> a / b" using assms by (simp add: field_simps)
  have eq: "jsRem a b = a - b * of_int \<lceil>a / b\<rceil>" using q by (simp add: jsRem_def)
  have ba: "b * (a / b) = a" using assms(1) by simp
  have "b * (a / b) \<le> b * of_int \<lceil>a / b\<rceil>"
    using assms(1) by (intro mult_left_mono) auto
  then have l: "a \<le> b * of_int \<lceil>a / b\<rceil>" unfolding ba .
  have "of_int \<lceil>a / b\<rceil> - 1 < a / b" by linarith
  then have "b * (of_int \<lceil>a / b\<rceil> - 1) < b * (a / b)"
    using assms(1) by (intro mult_strict_left_mono) auto
  then have u: "b * of_int \<lceil>a / b\<rceil> - b < a" unfolding ba by (simp add: algebra_simps)
  from l u show ?thesis unfolding eq by linarith
qed

text \<open>\<^verbatim>\<open>wrapZ\<close> puts any depth into \<open>[0, L)\<close>, and so does the update of the player's shot.\<close>

lemma wrapZ_range: "0 \<le> z (wrapZ e) \<and> z (wrapZ e) < 65000"
proof -
  have 1: "0 \<le> jsRem (z e) 65000 + 65000"
    using jsRem_nonneg [of 65000 "z e"] jsRem_neg [of 65000 "z e"] by (cases "0 \<le> z e") auto
  show ?thesis
    using jsRem_nonneg [OF _ 1] by (simp add: wrapZ_def CONFIG_def Let_def)
qed

lemma PShot_update_range: "0 \<le> z (PShot_update e dt) \<and> z (PShot_update e dt) < 65000"
  using wrapZ_range [of "e\<lparr> z := z e + vz e * (dt / 16.67) \<rparr>"]
  by (simp add: PShot_update_def Let_def)

text \<open>
  Claim C2. For every entity whose depth lies in \<open>[0, L)\<close> and every \<open>dt \<ge> 0\<close>, the depth
  after \<^verbatim>\<open>update(dt)\<close> lies in \<open>[0, L)\<close>, \<open>L = 65000\<close>. The saucer's shot breaks it: fired
  from depth 64990 with the velocity \<^verbatim>\<open>shootAtPlayer\<close> gives it (\<open>50 * SPEED_FACTOR = 25\<close>),
  one frame of 16.67 ms moves it to depth 65015, outside the tunnel, because
  \<^verbatim>\<open>SShot.update\<close> never wraps.
\<close>

theorem SShot_update_leaves_range:
  "0 \<le> z ((newSShot 0 0 64990)\<lparr> vz := 25 \<rparr>) \<and> z ((newSShot 0 0 64990)\<lparr> vz := 25 \<rparr>) < 65000
   \<and> z (SShot_update ((newSShot 0 0 64990)\<lparr> vz := 25 \<rparr>) 16.67) = 65015
   \<and> \<not> z (SShot_update ((newSShot 0 0 64990)\<lparr> vz := 25 \<rparr>) 16.67) < TUNNEL_length CONFIG"
  by (simp add: SShot_update_def newSShot_def newVis_def CONFIG_def Let_def)

subsection \<open>The grid animation\<close>

text \<open>Hit lines never exceed 4, so the lane walks of \<^verbatim>\<open>incrExpl\<close> stay inside the offset arrays.\<close>

lemma findLine_bound:
  "i \<le> 3 \<Longrightarrow> hit < look + real (4 - i) * q \<Longrightarrow> fst (findLine hit q i look) \<le> 3"
proof (induction hit q i look rule: findLine.induct)
  case (1 hit q i look)
  show ?case
  proof (cases "hit > look + q \<and> i \<le> 4")
    case True
    with "1.prems" have i2: "i \<le> 2"
      by (cases "i = 3") auto
    then have r: "real (4 - i) = real (4 - (i + 1)) + 1"
      by (simp add: of_nat_diff)
    have "hit < (look + q) + real (4 - (i + 1)) * q"
      using "1.prems"(2) unfolding r by (simp add: algebra_simps)
    with "1.IH" True i2 have "fst (findLine hit q (i + 1) (look + q)) \<le> 3"
      by simp
    with True show ?thesis
      by (subst findLine.simps) simp
  next
    case False
    with "1.prems" show ?thesis
      by (subst findLine.simps) auto
  qed
qed

lemma hitLine_le_4: "hi = lo + 4 * q \<Longrightarrow> fst (hitLine hit lo hi q) \<le> 4"
  using findLine_bound [of 0 hit lo q]
  by (auto simp: hitLine_def split: prod.splits)

lemma Vis_initExpl_hitLines:
  "expl (Vis_initExpl e xh yh d n) = Some ex \<Longrightarrow> xHitLine ex \<le> 4 \<and> yHitLine ex \<le> 4"
  using hitLine_le_4 [of "extentX e" "- extentX e" "(extentX e - - extentX e) / 4" xh]
        hitLine_le_4 [of "extentY e" "- extentY e" "(extentY e - - extentY e) / 4" yh]
  by (auto simp: Vis_initExpl_def Let_def split: prod.splits)

text \<open>One step of the walk from hit line 3, the hit line of the formation preset.\<close>

lemma walkLanes_3:
  "walkLanes 3 d [a0, a1, a2, a3, a4]
    = [binary64 (a0 - binary64 (binary64 (d + d) + binary64 (d + d))),
       binary64 (a1 - binary64 (d + d)), binary64 (a2 - d),
       binary64 (a3 + d), binary64 (a4 + binary64 (d + d))]"
  by (simp add: walkLanes_def laneUp_def laneDown_def upt_rec)







text \<open>
  A fractional increment: \<^verbatim>\<open>initForm(0.1, 3)\<close>, where \<open>0.1\<close> is the binary64 number
  \<open>3602879701896397 / 2^55\<close>. The product \<open>3 * 0.1\<close> rounds up, every later operation is
  exact, and after three steps the lanes 1 to 4 are left at \<open>2^-54\<close> and \<open>2^-55\<close> from zero. The
  lemmas are the twenty roundings of the computation, in order.
\<close>

lemma binary64_tenth: "binary64 (1 / 10) = 3602879701896397 / 36028797018963968"
  by (subst binary64_eval [where k = "- 4"]) (simp_all add: rne_def)

lemma fraction_round_1: "binary64 (10808639105689191 / 36028797018963968) = 1351079888211149 / 4503599627370496"
  by (subst binary64_eval [where k = "- 2"]) (simp_all add: rne_def)

lemma fraction_round_2: "binary64 (- (1351079888211149 / 2251799813685248)) = - (1351079888211149 / 2251799813685248)"
  by (subst binary64_eval [where k = "- 1"]) (simp_all add: rne_def)

lemma fraction_round_3: "binary64 (1351079888211149 / 2251799813685248) = 1351079888211149 / 2251799813685248"
  by (subst binary64_eval [where k = "- 1"]) (simp_all add: rne_def)

lemma fraction_round_4: "binary64 (7205759403792795 / 36028797018963968) = 7205759403792795 / 36028797018963968"
  by (subst binary64_eval [where k = "- 3"]) (simp_all add: rne_def)

lemma fraction_round_5: "binary64 (- (3602879701896397 / 18014398509481984)) = - (3602879701896397 / 18014398509481984)"
  by (subst binary64_eval [where k = "- 3"]) (simp_all add: rne_def)

lemma fraction_round_6: "binary64 (7205759403792795 / 18014398509481984) = 7205759403792795 / 18014398509481984"
  by (subst binary64_eval [where k = "- 2"]) (simp_all add: rne_def)

lemma fraction_round_7: "binary64 (- (3602879701896397 / 9007199254740992)) = - (3602879701896397 / 9007199254740992)"
  by (subst binary64_eval [where k = "- 2"]) (simp_all add: rne_def)

lemma fraction_round_8: "binary64 (- (7205759403792795 / 36028797018963968)) = - (7205759403792795 / 36028797018963968)"
  by (subst binary64_eval [where k = "- 3"]) (simp_all add: rne_def)

lemma fraction_round_9: "binary64 (- (7205759403792795 / 18014398509481984)) = - (7205759403792795 / 18014398509481984)"
  by (subst binary64_eval [where k = "- 2"]) (simp_all add: rne_def)

lemma fraction_round_10: "binary64 (- (1801439850948199 / 9007199254740992)) = - (1801439850948199 / 9007199254740992)"
  by (subst binary64_eval [where k = "- 3"]) (simp_all add: rne_def)

lemma fraction_round_11: "binary64 (- (3602879701896397 / 4503599627370496)) = - (3602879701896397 / 4503599627370496)"
  by (subst binary64_eval [where k = "- 1"]) (simp_all add: rne_def)

lemma fraction_round_12: "binary64 (1801439850948199 / 18014398509481984) = 1801439850948199 / 18014398509481984"
  by (subst binary64_eval [where k = "- 4"]) (simp_all add: rne_def)

lemma fraction_round_13: "binary64 (1801439850948199 / 9007199254740992) = 1801439850948199 / 9007199254740992"
  by (subst binary64_eval [where k = "- 3"]) (simp_all add: rne_def)

lemma fraction_round_14: "binary64 (- (1801439850948199 / 18014398509481984)) = - (1801439850948199 / 18014398509481984)"
  by (subst binary64_eval [where k = "- 4"]) (simp_all add: rne_def)

lemma fraction_round_15: "binary64 (900719925474099 / 4503599627370496) = 900719925474099 / 4503599627370496"
  by (subst binary64_eval [where k = "- 3"]) (simp_all add: rne_def)

lemma fraction_round_16: "binary64 (1 / 36028797018963968) = 1 / 36028797018963968"
  by (subst binary64_eval [where k = "- 55"]) (simp_all add: rne_def)

lemma fraction_round_17: "binary64 (1 / 18014398509481984) = 1 / 18014398509481984"
  by (subst binary64_eval [where k = "- 54"]) (simp_all add: rne_def)

lemma fraction_round_18: "binary64 (- (1 / 36028797018963968)) = - (1 / 36028797018963968)"
  by (subst binary64_eval [where k = "- 55"]) (simp_all add: rne_def)

lemma fraction_round_19: "binary64 (- (1 / 18014398509481984)) = - (1 / 18014398509481984)"
  by (subst binary64_eval [where k = "- 54"]) (simp_all add: rne_def)

lemma fraction_round_20: "binary64 (5404319552844595 / 9007199254740992) = 5404319552844595 / 9007199254740992"
  by (subst binary64_eval [where k = "- 1"]) (simp_all add: rne_def)

lemma funpow_3: "(f ^^ 3) v = f (f (f v))"
  by (simp add: eval_nat_numeral)

lemma initForm_fraction_rounds:
  "map_option xOffset (expl (((snd \<circ> incrExpl) ^^ 3)
       (initForm (newVis 0 0 0) (3602879701896397 / 36028797018963968) 3)))
     = Some [5404319552844595 / 9007199254740992, - (1 / 18014398509481984),
             - (1 / 36028797018963968), 1 / 36028797018963968, 1 / 18014398509481984]"
  by (simp add: funpow_3 initForm_def incrExpl_def walkLanes_3 Let_def
        fraction_round_1 fraction_round_2 fraction_round_3 fraction_round_4
        fraction_round_5 fraction_round_6 fraction_round_7 fraction_round_8
        fraction_round_9 fraction_round_10 fraction_round_11 fraction_round_12
        fraction_round_13 fraction_round_14 fraction_round_15 fraction_round_16
        fraction_round_17 fraction_round_18 fraction_round_19 fraction_round_20)




lemma initExpl_keeps:
  "isExploding (initExpl e a b d n) = isExploding e"
  "checkCollide (initExpl e a b d n) = checkCollide e"
  by (simp_all add: initExpl_def Vis_initExpl_def Let_def split: prod.splits)

lemma isExploding_explode: "isExploding (explode e xh yh)"
  by (simp add: explode_def Let_def initExpl_keeps)

text \<open>
  Claim C9. \<^verbatim>\<open>explode(xHit, yHit)\<close> on an entity that is already exploding changes no
  field, whatever the arguments; hence a second call after a first changes nothing. On an
  entity that is not exploding, the call sets \<^verbatim>\<open>isExploding\<close>, clears \<^verbatim>\<open>checkCollide\<close> and
  initialises the animation record by \<^verbatim>\<open>initExpl\<close> at the entity-local impact point
  \<open>(xHit - x, yHit - y)\<close>: zero offsets, step 0, hit lines and first grid line found from
  the local point.
\<close>

theorem explode_idempotent:
  "(isExploding e \<longrightarrow> explode e xHit yHit = e)
   \<and> explode (explode e xHit yHit) xHit' yHit' = explode e xHit yHit
   \<and> (\<not> isExploding e \<longrightarrow>
        explode e xHit yHit
          = initExpl (e\<lparr> isExploding := True, checkCollide := False, explAccum := Some 0 \<rparr>)
              (xHit - x e) (yHit - y e) 125 25
        \<and> isExploding (explode e xHit yHit)
        \<and> \<not> checkCollide (explode e xHit yHit)
        \<and> (\<exists>ex. expl (explode e xHit yHit) = Some ex
              \<and> xOffset ex = [0, 0, 0, 0, 0] \<and> yOffset ex = [0, 0, 0, 0, 0] \<and> step ex = 0
              \<and> (xHitLine ex, xLine ex ! 1 - xLine ex ! 0)
                  = hitLine (xHit - x e) (- extentX e) (extentX e) ((extentX e - - extentX e) / 4)
              \<and> (yHitLine ex, yLine ex ! 1 - yLine ex ! 0)
                  = hitLine (yHit - y e) (- extentY e) (extentY e) ((extentY e - - extentY e) / 4)))"
proof -
  have 1: "isExploding e \<longrightarrow> explode e xHit yHit = e"
    by (simp add: explode_def)
  have 2: "explode (explode e xHit yHit) xHit' yHit' = explode e xHit yHit"
    using isExploding_explode [of e xHit yHit] by (simp add: explode_def)
  have 3: "\<not> isExploding e \<longrightarrow>
        explode e xHit yHit
          = initExpl (e\<lparr> isExploding := True, checkCollide := False, explAccum := Some 0 \<rparr>)
              (xHit - x e) (yHit - y e) 125 25"
    by (simp add: explode_def Let_def)
  have 4: "\<not> isExploding e \<longrightarrow> \<not> checkCollide (explode e xHit yHit)"
    by (simp add: explode_def Let_def initExpl_keeps)
  have 5: "\<not> isExploding e \<longrightarrow> (\<exists>ex. expl (explode e xHit yHit) = Some ex
              \<and> xOffset ex = [0, 0, 0, 0, 0] \<and> yOffset ex = [0, 0, 0, 0, 0] \<and> step ex = 0
              \<and> (xHitLine ex, xLine ex ! 1 - xLine ex ! 0)
                  = hitLine (xHit - x e) (- extentX e) (extentX e) ((extentX e - - extentX e) / 4)
              \<and> (yHitLine ex, yLine ex ! 1 - yLine ex ! 0)
                  = hitLine (yHit - y e) (- extentY e) (extentY e) ((extentY e - - extentY e) / 4))"
    by (auto simp add: explode_def Let_def initExpl_def Vis_initExpl_def gridLines_def
          split: prod.splits)
  from 1 2 3 4 5 isExploding_explode [of e xHit yHit] show ?thesis
    by blast
qed

text \<open>A first hit on a fresh entity at its centre, then a second hit elsewhere.\<close>

theorem explode_idempotent_witness:
  "\<not> isExploding (newVis 10 20 0)
   \<and> isExploding (explode (newVis 10 20 0) 10 20)
   \<and> \<not> checkCollide (explode (newVis 10 20 0) 10 20)
   \<and> explode (explode (newVis 10 20 0) 10 20) 77 (- 5) = explode (newVis 10 20 0) 10 20"
proof -
  have h: "\<not> isExploding (newVis 10 20 0)"
    by (simp add: newVis_def)
  from explode_idempotent [of "newVis 10 20 0" 10 20 77 "- 5"] h show ?thesis
    by blast
qed

subsection \<open>Collision\<close>

lemma if_chain4:
  "(if A then False else if B then False else if C then False else if D then False
    else True) \<longleftrightarrow> \<not> A \<and> \<not> B \<and> \<not> C \<and> \<not> D"
  by simp

lemma if_chain5:
  "(if A then False else if B then False else if C then False else if D then False
    else if E then False else True) \<longleftrightarrow> \<not> A \<and> \<not> B \<and> \<not> C \<and> \<not> D \<and> \<not> E"
  by simp

text \<open>The two successive depth corrections of \<^verbatim>\<open>collidesWith\<close> compute what the
  \<^verbatim>\<open>if / else if\<close> of \<^verbatim>\<open>getZFromPlayer\<close> computes.\<close>

lemma wrapOnce:
  fixes d :: real
  shows "(if (if d > 65000 / 2 then d - 65000 else d) < - 65000 / 2
          then (if d > 65000 / 2 then d - 65000 else d) + 65000
          else (if d > 65000 / 2 then d - 65000 else d))
         = (if d > 65000 / 2 then d - 65000 else if d < - 65000 / 2 then d + 65000 else d)"
  by simp

text \<open>Phase 1 as a conjunction: with both thicknesses defined, five tests; with one of them
  undefined, the four x and y tests only.\<close>

lemma broadPhase_iff:
  assumes "thick a = Some ta" and "thick b = Some tb"
  shows "broadPhase a b \<longleftrightarrow>
     \<not> (x a + (extentX a + \<bar>vx a\<bar>) < x b - (extentX b + \<bar>vx b\<bar>))
   \<and> \<not> (x a - (extentX a + \<bar>vx a\<bar>) > x b + (extentX b + \<bar>vx b\<bar>))
   \<and> \<not> (y a + (extentY a + \<bar>vy a\<bar>) < y b - (extentY b + \<bar>vy b\<bar>))
   \<and> \<not> (y a - (extentY a + \<bar>vy a\<bar>) > y b + (extentY b + \<bar>vy b\<bar>))
   \<and> \<not> (\<bar>getZFromPlayer b (z a)\<bar> > (ta + \<bar>vz a\<bar>) + (tb + \<bar>vz b\<bar>))"
  unfolding broadPhase_def getZFromPlayer_def Let_def CONFIG_def config.simps assms option.case
    if_chain5 wrapOnce
  by (rule refl)

lemma broadPhase_undefined_thick:
  assumes "thick a = None \<or> thick b = None"
  shows "broadPhase a b \<longleftrightarrow>
     \<not> (x a + (extentX a + \<bar>vx a\<bar>) < x b - (extentX b + \<bar>vx b\<bar>))
   \<and> \<not> (x a - (extentX a + \<bar>vx a\<bar>) > x b + (extentX b + \<bar>vx b\<bar>))
   \<and> \<not> (y a + (extentY a + \<bar>vy a\<bar>) < y b - (extentY b + \<bar>vy b\<bar>))
   \<and> \<not> (y a - (extentY a + \<bar>vy a\<bar>) > y b + (extentY b + \<bar>vy b\<bar>))"
proof -
  have c: "(case (case thick a of None \<Rightarrow> None | Some t \<Rightarrow> Some (t + \<bar>vz a\<bar>)) of
             None \<Rightarrow> None
           | Some p \<Rightarrow> (case (case thick b of None \<Rightarrow> None | Some t \<Rightarrow> Some (t + \<bar>vz b\<bar>)) of
                          None \<Rightarrow> None | Some q \<Rightarrow> Some (p + q))) = None"
    using assms by (auto split: option.splits)
  show ?thesis
    unfolding broadPhase_def Let_def c option.case if_chain4 by (rule refl)
qed

lemma rectsOverlap_sym: "rectsOverlap a r1 b r2 = rectsOverlap b r2 a r1"
  by (auto simp: rectsOverlap_def Let_def)

lemma deepCollide_sym: "deepCollide a b = deepCollide b a"
  unfolding deepCollide_def list_ex_iff using rectsOverlap_sym by blast

lemma broadPhase_sym: "broadPhase a b = broadPhase b a"
proof (cases "thick a = None \<or> thick b = None")
  case True
  have sw: "thick b = None \<or> thick a = None"
    using True by (elim disjE) simp_all
  show ?thesis
    unfolding broadPhase_undefined_thick [OF True] broadPhase_undefined_thick [OF sw]
    by argo
next
  case False
  then obtain ta tb where t: "thick a = Some ta" "thick b = Some tb" by auto
  have zs: "\<bar>getZFromPlayer b (z a)\<bar> = \<bar>getZFromPlayer a (z b)\<bar>"
    by (simp add: getZFromPlayer_neg [of b a])
  show ?thesis
    unfolding broadPhase_iff [OF t] broadPhase_iff [OF t(2) t(1)] zs by argo
qed

text \<open>Two default entities side by side, overlapping in x, 20 apart in depth: they collide.\<close>

lemma collides_example: "collidesWith (newVis 0 0 0) (newVis 150 0 20)"
  by (simp add: collidesWith_def broadPhase_def deepCollide_def getCollisionRects_def
        rectsOverlap_def newVis_def CONFIG_def Let_def)

text \<open>
  Claim C8. If either entity's \<^verbatim>\<open>checkCollide\<close> flag is false, or either entity is exploding,
  or either is forming, then \<^verbatim>\<open>collidesWith\<close> returns false.
\<close>

theorem collidesWith_guards:
  assumes "\<not> checkCollide a \<or> \<not> checkCollide b \<or> isExploding a \<or> isExploding b
           \<or> isForming a \<or> isForming b"
  shows "collidesWith a b = False"
  using assms by (auto simp: collidesWith_def)

text \<open>The colliding pair above stops colliding once the second entity is forming, and
  once the first has been hit.\<close>

theorem collidesWith_guards_witness:
  "isForming ((newVis 150 0 20)\<lparr> isForming := True \<rparr>)
   \<and> collidesWith (newVis 0 0 0) ((newVis 150 0 20)\<lparr> isForming := True \<rparr>) = False
   \<and> isExploding (explode (newVis 0 0 0) 0 0)
   \<and> collidesWith (explode (newVis 0 0 0) 0 0) (newVis 150 0 20) = False"
proof -
  have h1: "isForming ((newVis 150 0 20)\<lparr> isForming := True \<rparr>)"
    by simp
  have h2: "isExploding (explode (newVis 0 0 0) 0 0)"
    by (rule isExploding_explode)
  from h1 h2
    collidesWith_guards [of "newVis 0 0 0" "(newVis 150 0 20)\<lparr> isForming := True \<rparr>"]
    collidesWith_guards [of "explode (newVis 0 0 0) 0 0" "newVis 150 0 20"]
  show ?thesis by blast
qed

text \<open>
  Claim C10. Collision testing is symmetric: \<^verbatim>\<open>a.collidesWith(b)\<close> and
  \<^verbatim>\<open>b.collidesWith(a)\<close> return the same boolean, for every pair of entities.
\<close>

theorem collidesWith_sym: "collidesWith a b = collidesWith b a"
  unfolding collidesWith_def using deepCollide_sym [of a b] broadPhase_sym [of a b] by auto

theorem collidesWith_sym_witness:
  "collidesWith (newVis 0 0 0) (newVis 150 0 20) \<and> collidesWith (newVis 150 0 20) (newVis 0 0 0)"
  using collides_example collidesWith_sym [of "newVis 0 0 0" "newVis 150 0 20"] by blast

text \<open>The narrow phase looks at x and y only; within the extent boxes, an overlapping pair of
  rectangles forces the boxes to meet on both axes.\<close>

lemma deepCollide_xy:
  assumes wa: "rectsWithinExtents a" and wb: "rectsWithinExtents b" and dc: "deepCollide a b"
  shows "x a - extentX a \<le> x b + extentX b \<and> x b - extentX b \<le> x a + extentX a
       \<and> y a - extentY a \<le> y b + extentY b \<and> y b - extentY b \<le> y a + extentY a"
proof -
  from dc obtain r1 r2 where r1: "r1 \<in> set (getCollisionRects a)"
    and r2: "r2 \<in> set (getCollisionRects b)" and ov: "rectsOverlap a r1 b r2"
    unfolding deepCollide_def list_ex_iff by blast
  from wa r1 have b1: "- extentX a \<le> left r1" "right r1 \<le> extentX a"
      "- extentY a \<le> top' r1" "bottom r1 \<le> extentY a"
    unfolding rectsWithinExtents_def list_all_iff by auto
  from wb r2 have b2: "- extentX b \<le> left r2" "right r2 \<le> extentX b"
      "- extentY b \<le> top' r2" "bottom r2 \<le> extentY b"
    unfolding rectsWithinExtents_def list_all_iff by auto
  from ov have o: "left r1 + x a \<le> right r2 + x b" "left r2 + x b \<le> right r1 + x a"
      "top' r2 + y b \<le> bottom r1 + y a" "top' r1 + y a \<le> bottom r2 + y b"
    unfolding rectsOverlap_def Let_def by auto
  from b1 b2 o show ?thesis by linarith
qed

text \<open>Every class that inherits \<^verbatim>\<open>getCollisionRects\<close> has its rectangle within its extents,
  and so has each constructed entity of the five classes with a shape table.\<close>

lemma rectsWithinExtents_inherited:
  "kind e \<notin> {Cross, Saucer, Aphid, Thing, Grabber} \<Longrightarrow> rectsWithinExtents e"
  by (cases "kind e") (simp_all add: rectsWithinExtents_def getCollisionRects_def)

lemma rectsWithinExtents_newCross: "rectsWithinExtents (newCross px py pz)"
  by (simp add: rectsWithinExtents_def getCollisionRects_def newCross_def newVis_def
        CROSS_SHAPE_def scaleRect_def mkRect_def)

lemma rectsWithinExtents_newSaucer: "rectsWithinExtents (newSaucer px py pz)"
  by (simp add: rectsWithinExtents_def getCollisionRects_def newSaucer_def newVis_def
        SAUCER_SHAPE_def scaleRect_def mkRect_def)

lemma rectsWithinExtents_newAphid: "rectsWithinExtents (newAphid px py pz rnd)"
  by (simp add: rectsWithinExtents_def getCollisionRects_def newAphid_def newVis_def
        APHID_SHAPE_def scaleRect_def mkRect_def)

lemma rectsWithinExtents_newThing: "rectsWithinExtents (newThing px py pz)"
  by (simp add: rectsWithinExtents_def getCollisionRects_def newThing_def newVis_def
        THING_SHAPE_def scaleRect_def mkRect_def)

lemma rectsWithinExtents_newGrabber: "rectsWithinExtents (newGrabber px py pz)"
  by (simp add: rectsWithinExtents_def getCollisionRects_def newGrabber_def newVis_def
        GRABBER_SHAPE_def scaleRect_def mkRect_def)

lemma deepCollide_cross_saucer: "deepCollide (newCross 0 0 0) (newSaucer 4000 0 50)"
  by (simp add: deepCollide_def getCollisionRects_def rectsOverlap_def newCross_def
        newSaucer_def newVis_def CROSS_SHAPE_def SAUCER_SHAPE_def scaleRect_def mkRect_def Let_def)

text \<open>
  Claim C3, amended. If \<^verbatim>\<open>deepCollide(a, b)\<close> returns true, and the collision rectangles
  of each entity lie within its extents (as the constructors make them), then the broad
  phase of \<^verbatim>\<open>collidesWith\<close> reports overlap on the x axis and on the y axis: none of its
  four x and y tests returns false. The narrow phase compares rectangles in x and y only,
  so it implies nothing about the depth test of phase 1.
\<close>

theorem deepCollide_broadPhase_xy:
  assumes "rectsWithinExtents a" and "rectsWithinExtents b" and "deepCollide a b"
  shows "\<not> (x a + (extentX a + \<bar>vx a\<bar>) < x b - (extentX b + \<bar>vx b\<bar>))
   \<and> \<not> (x a - (extentX a + \<bar>vx a\<bar>) > x b + (extentX b + \<bar>vx b\<bar>))
   \<and> \<not> (y a + (extentY a + \<bar>vy a\<bar>) < y b - (extentY b + \<bar>vy b\<bar>))
   \<and> \<not> (y a - (extentY a + \<bar>vy a\<bar>) > y b + (extentY b + \<bar>vy b\<bar>))"
  using deepCollide_xy [OF assms] by linarith

text \<open>A cross and a saucer whose shapes overlap: the four x and y tests pass.\<close>

theorem deepCollide_broadPhase_xy_witness:
  "rectsWithinExtents (newCross 0 0 0) \<and> rectsWithinExtents (newSaucer 4000 0 50)
   \<and> deepCollide (newCross 0 0 0) (newSaucer 4000 0 50)
   \<and> \<not> (x (newCross 0 0 0) + (extentX (newCross 0 0 0) + \<bar>vx (newCross 0 0 0)\<bar>)
          < x (newSaucer 4000 0 50) - (extentX (newSaucer 4000 0 50) + \<bar>vx (newSaucer 4000 0 50)\<bar>))
   \<and> \<not> (y (newCross 0 0 0) - (extentY (newCross 0 0 0) + \<bar>vy (newCross 0 0 0)\<bar>)
          > y (newSaucer 4000 0 50) + (extentY (newSaucer 4000 0 50) + \<bar>vy (newSaucer 4000 0 50)\<bar>))"
  using deepCollide_broadPhase_xy [OF rectsWithinExtents_newCross rectsWithinExtents_newSaucer
      deepCollide_cross_saucer]
    rectsWithinExtents_newCross rectsWithinExtents_newSaucer deepCollide_cross_saucer
  by blast

text \<open>
  Claim C3 as stated fails: two default entities at the same x and y, 1000 apart in depth,
  overlap in the narrow phase, and the broad phase rejects them on the depth axis.
\<close>

theorem deepCollide_broadPhase_counterexample:
  "deepCollide (newVis 0 0 0) (newVis 0 0 1000) \<and> \<not> broadPhase (newVis 0 0 0) (newVis 0 0 1000)"
  by (simp add: deepCollide_def broadPhase_def getCollisionRects_def rectsOverlap_def
        newVis_def CONFIG_def Let_def)

subsection \<open>Projection\<close>

text \<open>
  Claim C5. With the eye at the origin, \<open>eyeToScreen = 50\<close>, \<open>near = 30\<close>, \<open>far = 65000\<close>
  (the values of \<^verbatim>\<open>CONFIG\<close>; any canvas size and screen-plane setting) and no stereo offset,
  \<^verbatim>\<open>projectPoint\<close> maps the world point \<open>(0, 0, 1000)\<close> to the centre of the canvas, visible:
  the centred coordinates \<open>x - WIDTH / 2\<close> and \<open>y - HEIGHT / 2\<close> are \<open>0\<close>. A point at depth
  10, below \<open>near\<close>, is reported not visible.
\<close>

theorem projectPoint_scenario:
  "projectPoint (CONFIG\<lparr> WIDTH := w, HEIGHT := h, STEREO_screenPlaneZ := s \<rparr>)
       (setEyePosition 0 0 0) 0 0 1000 0
     = \<lparr> projected.x = 0 + w / 2, y = 0 + h / 2, visible = True \<rparr>
   \<and> STEREO_eyeToScreen (CONFIG\<lparr> WIDTH := w, HEIGHT := h, STEREO_screenPlaneZ := s \<rparr>) = 50
   \<and> TUNNEL_near (CONFIG\<lparr> WIDTH := w, HEIGHT := h, STEREO_screenPlaneZ := s \<rparr>) = 30
   \<and> TUNNEL_far (CONFIG\<lparr> WIDTH := w, HEIGHT := h, STEREO_screenPlaneZ := s \<rparr>) = 65000
   \<and> \<not> visible (projectPoint (CONFIG\<lparr> WIDTH := w, HEIGHT := h, STEREO_screenPlaneZ := s \<rparr>)
                   (setEyePosition 0 0 0) worldX worldY 10 eyeOffsetX)"
  by (simp add: projectPoint_def CONFIG_def setEyePosition_def Let_def split: option.split)

theorem projectPoint_scenario_witness:
  "projectPoint CONFIG (setEyePosition 0 0 0) 0 0 1000 0
     = \<lparr> projected.x = 320, y = 240, visible = True \<rparr>
   \<and> \<not> visible (projectPoint CONFIG (setEyePosition 0 0 0) 0 0 10 0)"
  using projectPoint_scenario [where w = 640 and h = 480 and s = "Some 5000"
      and worldX = 0 and worldY = 0 and eyeOffsetX = 0]
  by (simp add: CONFIG_def)

text \<open>
  In exact arithmetic the correction term cancels the offset at the screen-plane depth: the
  two eyes get the same screen x.
\<close>

lemma projectPoint_exact_parallax:
  assumes "STEREO_screenPlaneZ cfg = Some spz" and "spz \<noteq> 0" and "worldZ - eyeZ ey = spz"
    and "TUNNEL_near cfg < spz" and "spz \<le> TUNNEL_far cfg" and "off \<noteq> 0"
  shows "projected.x (projectPoint cfg ey worldX worldY worldZ off)
           = projected.x (projectPoint cfg ey worldX worldY worldZ (- off))
       \<and> visible (projectPoint cfg ey worldX worldY worldZ off)
       \<and> visible (projectPoint cfg ey worldX worldY worldZ (- off))"
proof -
  have a: "projectPoint cfg ey worldX worldY worldZ off =
     \<lparr> projected.x = ((worldX - eyeX ey - off) * STEREO_eyeToScreen cfg) / spz
                       + (off * STEREO_eyeToScreen cfg) / spz + WIDTH cfg / 2,
       y = ((worldY - eyeY ey) * STEREO_eyeToScreen cfg) / spz + HEIGHT cfg / 2,
       visible = True \<rparr>"
    using assms by (simp add: projectPoint_def Let_def)
  have b: "projectPoint cfg ey worldX worldY worldZ (- off) =
     \<lparr> projected.x = ((worldX - eyeX ey - (- off)) * STEREO_eyeToScreen cfg) / spz
                       + ((- off) * STEREO_eyeToScreen cfg) / spz + WIDTH cfg / 2,
       y = ((worldY - eyeY ey) * STEREO_eyeToScreen cfg) / spz + HEIGHT cfg / 2,
       visible = True \<rparr>"
    using assms by (simp add: projectPoint_def Let_def)
  have c: "((worldX - eyeX ey - off) * STEREO_eyeToScreen cfg) / spz
             + (off * STEREO_eyeToScreen cfg) / spz
         = ((worldX - eyeX ey) * STEREO_eyeToScreen cfg) / spz"
    using assms(2) by (simp add: field_simps)
  have d: "((worldX - eyeX ey - (- off)) * STEREO_eyeToScreen cfg) / spz
             + ((- off) * STEREO_eyeToScreen cfg) / spz
         = ((worldX - eyeX ey) * STEREO_eyeToScreen cfg) / spz"
    using assms(2) by (simp add: field_simps)
  show ?thesis unfolding a b by (simp only: projected.simps c d simp_thms)
qed

text \<open>With rounding, the scenario of claim C5 still lands on the centre of the canvas.\<close>

lemma projectPoint64_scenario:
  "projectPoint64 CONFIG (setEyePosition 0 0 0) 0 0 1000 0
     = \<lparr> projected.x = 320, y = 240, visible = True \<rparr>"
  by (simp add: projectPoint64_def CONFIG_def setEyePosition_def Let_def binary64_numeral
        binary64_0)

text \<open>
  The roundings of the two calls at \<open>worldX = -31998\<close>, depth 5000, offsets \<open>+70\<close> and
  \<open>-70\<close>, in the shipped configuration: the quotient \<open>(worldX - eyeOffsetX) * 50 / 5000\<close>,
  the correction \<open>70 * 50 / 5000\<close>, their sum, and the sum with half the canvas width.
\<close>

lemma round_left_quotient: "binary64 (- (8017 / 25)) = - (5641462220723323 / 17592186044416)"
  by (subst binary64_eval [where k = 8]) (simp_all add: rne_def)

lemma round_correction: "binary64 (7 / 10) = 3152519739159347 / 4503599627370496"
  by (subst binary64_eval [where k = "- 1"]) (simp_all add: rne_def)

lemma round_left_sum: "binary64 (- (1441061808766011341 / 4503599627370496))
   = - (703643461311529 / 2199023255552)"
  by (subst binary64_eval [where k = 8]) (simp_all add: rne_def)

lemma round_left_x: "binary64 (43980465111 / 2199023255552) = 43980465111 / 2199023255552"
  by (subst binary64_eval [where k = "- 6"]) (simp_all add: rne_def)

lemma round_right_quotient: "binary64 (- (7982 / 25)) = - (1404208290065285 / 4398046511104)"
  by (subst binary64_eval [where k = 8]) (simp_all add: rne_def)

lemma round_correction_neg: "binary64 (- (7 / 10)) = - (3152519739159347 / 4503599627370496)"
  by (subst binary64_eval [where k = "- 1"]) (simp_all add: rne_def)

lemma round_right_sum: "binary64 (- (1441061808766011187 / 4503599627370496))
   = - (5629147690492231 / 17592186044416)"
  by (subst binary64_eval [where k = 8]) (simp_all add: rne_def)

lemma round_right_x: "binary64 (351843720889 / 17592186044416) = 351843720889 / 17592186044416"
  by (subst binary64_eval [where k = "- 6"]) (simp_all add: rne_def)

lemma projectPoint64_left_eye:
  "projected.x (projectPoint64 CONFIG (setEyePosition 0 0 0) (- 31998) 0 5000 70)
     = 43980465111 / 2199023255552"
  by (simp add: projectPoint64_def CONFIG_def setEyePosition_def Let_def binary64_numeral
        binary64_neg_numeral binary64_0 round_left_quotient round_correction round_left_sum
        round_left_x)

lemma projectPoint64_right_eye:
  "projected.x (projectPoint64 CONFIG (setEyePosition 0 0 0) (- 31998) 0 5000 (- 70))
     = 351843720889 / 17592186044416"
  by (simp add: projectPoint64_def CONFIG_def setEyePosition_def Let_def binary64_numeral
        binary64_neg_numeral binary64_0 round_right_quotient round_correction_neg
        round_right_sum round_right_x)

text \<open>
  The accumulated rounding error of one call, against the exact quotient
  \<open>(worldX - eyeX) * eyeToScreen / screenPlaneZ\<close> plus the rounded half width: nine
  roundings of results of magnitude at most \<open>2^34\<close>.
\<close>

lemma parallax_side:
  fixes wx ex off k s W :: real
  assumes s1: "1 \<le> s"
    and bx: "\<bar>wx\<bar> \<le> 2 ^ 16" and be: "\<bar>ex\<bar> \<le> 2 ^ 16" and bo: "\<bar>off\<bar> \<le> 2 ^ 10"
    and bk: "\<bar>k\<bar> \<le> 2 ^ 10" and bw: "\<bar>W\<bar> \<le> 2 ^ 16"
  shows "\<bar>binary64 (binary64 (binary64 (binary64 (binary64 (binary64 (wx - ex) - off) * k) / s)
                    + binary64 (binary64 (off * k) / s)) + binary64 (W / 2))
          - ((wx - ex) * k / s + binary64 (W / 2))\<bar> \<le> 1 / 2 ^ 18"
proof -
  define u :: real where "u = 1 / 2 ^ 53"
  have u0: "0 \<le> u" and u1: "u \<le> 1 / 34359738368" and uv: "34359738368 * u = 1 / 2 ^ 18"
    by (simp_all add: u_def)
  have err: "\<bar>binary64 v - v\<bar> \<le> 2 ^ n * u" if "\<bar>v\<bar> \<le> 2 ^ n" for v n
    using binary64_err_pow [OF that] by (simp add: u_def)
  define A where "A = binary64 (wx - ex)"
  define B where "B = binary64 (A - off)"
  define C where "C = binary64 (B * k)"
  define D where "D = binary64 (C / s)"
  define E where "E = binary64 (off * k)"
  define F where "F = binary64 (E / s)"
  define G where "G = binary64 (D + F)"
  define H where "H = binary64 (W / 2)"
  have bx': "\<bar>wx\<bar> \<le> 65536" and be': "\<bar>ex\<bar> \<le> 65536" and bo': "\<bar>off\<bar> \<le> 1024"
    and bk': "\<bar>k\<bar> \<le> 1024" and bw': "\<bar>W\<bar> \<le> 65536"
    using bx be bo bk bw by simp_all
  have a0: "\<bar>wx - ex\<bar> \<le> 131072" by (rule abs_sub_mag [OF bx' be']) simp
  have eA: "\<bar>A - (wx - ex)\<bar> \<le> 131072 * u"
    unfolding A_def using err [of "wx - ex" 17] a0 by simp
  have mA: "\<bar>A\<bar> \<le> 262144 - 1024" using u0 u1 by (intro abs_mag [OF eA a0]) linarith
  have b0: "\<bar>A - off\<bar> \<le> 262144" by (rule abs_sub_mag [OF mA bo']) simp
  have eB0: "\<bar>B - (A - off)\<bar> \<le> 262144 * u"
    unfolding B_def using err [of "A - off" 18] b0 by simp
  have eB1: "\<bar>(A - off) - (wx - ex - off)\<bar> \<le> 131072 * u" using eA by simp
  have eB: "\<bar>B - (wx - ex - off)\<bar> \<le> 524288 * u"
    using u0 by (intro abs_tri [OF eB0 eB1]) linarith
  have mB: "\<bar>B\<bar> \<le> 524288" using u0 u1 by (intro abs_mag [OF eB0 b0]) linarith
  have c0: "\<bar>B * k\<bar> \<le> 536870912"
    using abs_mult_bound [OF mB bk'] by simp
  have eC0: "\<bar>C - B * k\<bar> \<le> 536870912 * u"
    unfolding C_def using err [of "B * k" 29] c0 by simp
  have "\<bar>(B - (wx - ex - off)) * k\<bar> \<le> 524288 * u * 1024"
    by (rule abs_mult_bound [OF eB bk'])
  then have eC1: "\<bar>B * k - (wx - ex - off) * k\<bar> \<le> 536870912 * u"
    by (simp add: algebra_simps)
  have eC: "\<bar>C - (wx - ex - off) * k\<bar> \<le> 1073741824 * u" using u0 by (intro abs_tri [OF eC0 eC1]) linarith
  have mC: "\<bar>C\<bar> \<le> 1073741824" using u0 u1 by (intro abs_mag [OF eC0 c0]) linarith
  have d0: "\<bar>C / s\<bar> \<le> 1073741824" by (rule abs_div_bound [OF mC s1])
  have eD0: "\<bar>D - C / s\<bar> \<le> 1073741824 * u"
    unfolding D_def using err [of "C / s" 30] d0 by simp
  have "\<bar>(C - (wx - ex - off) * k) / s\<bar> \<le> 1073741824 * u"
    by (rule abs_div_bound [OF eC s1])
  then have eD1: "\<bar>C / s - (wx - ex - off) * k / s\<bar> \<le> 1073741824 * u"
    by (simp add: diff_divide_distrib)
  have eD: "\<bar>D - (wx - ex - off) * k / s\<bar> \<le> 2147483648 * u" using u0 by (intro abs_tri [OF eD0 eD1]) linarith
  have mD: "\<bar>D\<bar> \<le> 2147483648" using u0 u1 by (intro abs_mag [OF eD0 d0]) linarith
  have e0: "\<bar>off * k\<bar> \<le> 1048576"
    using abs_mult_bound [OF bo' bk'] by simp
  have eE: "\<bar>E - off * k\<bar> \<le> 1048576 * u"
    unfolding E_def using err [of "off * k" 20] e0 by simp
  have mE: "\<bar>E\<bar> \<le> 2097152" using u0 u1 by (intro abs_mag [OF eE e0]) linarith
  have f0: "\<bar>E / s\<bar> \<le> 2097152" by (rule abs_div_bound [OF mE s1])
  have eF0: "\<bar>F - E / s\<bar> \<le> 2097152 * u"
    unfolding F_def using err [of "E / s" 21] f0 by simp
  have "\<bar>(E - off * k) / s\<bar> \<le> 1048576 * u"
    by (rule abs_div_bound [OF eE s1])
  then have eF1: "\<bar>E / s - off * k / s\<bar> \<le> 1048576 * u"
    by (simp add: diff_divide_distrib)
  have eF: "\<bar>F - off * k / s\<bar> \<le> 4194304 * u" using u0 by (intro abs_tri [OF eF0 eF1]) linarith
  have mF: "\<bar>F\<bar> \<le> 4194304" using u0 u1 by (intro abs_mag [OF eF0 f0]) linarith
  have g0: "\<bar>D + F\<bar> \<le> 4294967296" by (rule abs_add_mag [OF mD mF]) simp
  have eG0: "\<bar>G - (D + F)\<bar> \<le> 4294967296 * u"
    unfolding G_def using err [of "D + F" 32] g0 by simp
  have T: "(wx - ex) * k / s = (wx - ex - off) * k / s + off * k / s"
    using s1 by (simp add: field_simps)
  have eG: "\<bar>G - (wx - ex) * k / s\<bar> \<le> 8589934592 * u"
    unfolding T using u0 by (intro abs_tri [OF eG0 abs_add_err [OF eD eF]]) linarith
  have mG: "\<bar>G\<bar> \<le> 8589934592" using u0 u1 by (intro abs_mag [OF eG0 g0]) linarith
  have h0: "\<bar>W / 2\<bar> \<le> 32768" using bw' by simp
  have eH: "\<bar>H - W / 2\<bar> \<le> 32768 * u"
    unfolding H_def using err [of "W / 2" 15] h0 by simp
  have mH: "\<bar>H\<bar> \<le> 65536" using u0 u1 by (intro abs_mag [OF eH h0]) linarith
  have x0: "\<bar>G + H\<bar> \<le> 17179869184" by (rule abs_add_mag [OF mG mH]) simp
  have eX: "\<bar>binary64 (G + H) - (G + H)\<bar> \<le> 17179869184 * u"
    using err [of "G + H" 34] x0 by simp
  have eX1: "\<bar>(G + H) - ((wx - ex) * k / s + H)\<bar> \<le> 8589934592 * u" using eG by simp
  have "\<bar>binary64 (G + H) - ((wx - ex) * k / s + H)\<bar> \<le> 34359738368 * u"
    using u0 by (intro abs_tri [OF eX eX1]) linarith
  then show ?thesis
    unfolding uv G_def F_def E_def D_def C_def B_def A_def H_def .
qed

lemma abs_two:
  fixes a b t :: real
  assumes "\<bar>a - t\<bar> \<le> p" "\<bar>b - t\<bar> \<le> p"
  shows "\<bar>a - b\<bar> \<le> 2 * p"
  using assms by linarith

text \<open>
  Claim C6, amended. With a screen-plane depth \<open>screenPlaneZ \<ge> 1\<close> configured, a world
  point whose depth \<^verbatim>\<open>relZ = worldZ - eyeZ\<close>, as the code computes it, equals
  \<open>screenPlaneZ\<close> and lies in the visible range, and a non-zero eye offset \<open>o\<close>, the calls
  with offsets \<open>+o\<close> and \<open>-o\<close> are both visible and their screen x coordinates differ by
  at most \<open>2^-17\<close>, provided \<open>|worldX|, |eyeX|, |WIDTH| \<le> 2^16\<close> and
  \<open>|o|, |eyeToScreen| \<le> 2^10\<close> (the shipped tunnel and configuration lie inside these
  bounds). The two results are equal in exact arithmetic; in binary64 each operation of a
  call rounds, and the results agree up to that rounding only.
\<close>

theorem projectPoint64_parallax_bound:
  assumes spz: "STEREO_screenPlaneZ cfg = Some spz" and s1: "1 \<le> spz"
    and rel: "binary64 (worldZ - eyeZ ey) = spz"
    and near: "TUNNEL_near cfg < spz" and far: "spz \<le> TUNNEL_far cfg" and off: "off \<noteq> 0"
    and bx: "\<bar>worldX\<bar> \<le> 2 ^ 16" and be: "\<bar>eyeX ey\<bar> \<le> 2 ^ 16" and bo: "\<bar>off\<bar> \<le> 2 ^ 10"
    and bk: "\<bar>STEREO_eyeToScreen cfg\<bar> \<le> 2 ^ 10" and bw: "\<bar>WIDTH cfg\<bar> \<le> 2 ^ 16"
  shows "visible (projectPoint64 cfg ey worldX worldY worldZ off)
       \<and> visible (projectPoint64 cfg ey worldX worldY worldZ (- off))
       \<and> \<bar>projected.x (projectPoint64 cfg ey worldX worldY worldZ off)
            - projected.x (projectPoint64 cfg ey worldX worldY worldZ (- off))\<bar> \<le> 1 / 2 ^ 17"
proof -
  have s0: "spz \<noteq> 0" using s1 by simp
  have moff: "- off \<noteq> 0" "\<bar>- off\<bar> \<le> 2 ^ 10" using off bo by simp_all
  have vp: "visible (projectPoint64 cfg ey worldX worldY worldZ off)"
    using rel near far by (simp add: projectPoint64_def Let_def)
  have vm: "visible (projectPoint64 cfg ey worldX worldY worldZ (- off))"
    using rel near far by (simp add: projectPoint64_def Let_def)
  have xp: "projected.x (projectPoint64 cfg ey worldX worldY worldZ off)
      = binary64 (binary64 (binary64 (binary64 (binary64 (binary64 (worldX - eyeX ey) - off)
                    * STEREO_eyeToScreen cfg) / spz)
                    + binary64 (binary64 (off * STEREO_eyeToScreen cfg) / spz))
                  + binary64 (WIDTH cfg / 2))"
    using rel near far spz s0 off by (simp add: projectPoint64_def Let_def)
  have xm: "projected.x (projectPoint64 cfg ey worldX worldY worldZ (- off))
      = binary64 (binary64 (binary64 (binary64 (binary64 (binary64 (worldX - eyeX ey) - (- off))
                    * STEREO_eyeToScreen cfg) / spz)
                    + binary64 (binary64 ((- off) * STEREO_eyeToScreen cfg) / spz))
                  + binary64 (WIDTH cfg / 2))"
    using rel near far spz s0 moff(1) by (simp add: projectPoint64_def Let_def)
  have "\<bar>projected.x (projectPoint64 cfg ey worldX worldY worldZ off)
            - projected.x (projectPoint64 cfg ey worldX worldY worldZ (- off))\<bar> \<le> 2 * (1 / 2 ^ 18)"
    unfolding xp xm
    by (rule abs_two [OF parallax_side [OF s1 bx be bo bk bw]
                         parallax_side [OF s1 bx be moff(2) bk bw]])
  then have "\<bar>projected.x (projectPoint64 cfg ey worldX worldY worldZ off)
            - projected.x (projectPoint64 cfg ey worldX worldY worldZ (- off))\<bar> \<le> 1 / 2 ^ 17"
    by simp
  with vp vm show ?thesis by blast
qed

text \<open>The shipped configuration, a point near the left wall at the screen-plane depth 5000,
  half eye offset 70.\<close>

theorem projectPoint64_parallax_bound_witness:
  "STEREO_screenPlaneZ CONFIG = Some 5000 \<and> (1::real) \<le> 5000
   \<and> binary64 (5000 - eyeZ (setEyePosition 0 0 0)) = 5000
   \<and> TUNNEL_near CONFIG < 5000 \<and> 5000 \<le> TUNNEL_far CONFIG \<and> (70::real) \<noteq> 0
   \<and> \<bar>- 31998 :: real\<bar> \<le> 2 ^ 16 \<and> \<bar>eyeX (setEyePosition 0 0 0)\<bar> \<le> 2 ^ 16
   \<and> \<bar>70 :: real\<bar> \<le> 2 ^ 10 \<and> \<bar>STEREO_eyeToScreen CONFIG\<bar> \<le> 2 ^ 10
   \<and> \<bar>WIDTH CONFIG\<bar> \<le> 2 ^ 16
   \<and> \<bar>projected.x (projectPoint64 CONFIG (setEyePosition 0 0 0) (- 31998) 0 5000 70)
        - projected.x (projectPoint64 CONFIG (setEyePosition 0 0 0) (- 31998) 0 5000 (- 70))\<bar>
       \<le> 1 / 2 ^ 17"
proof -
  have h: "STEREO_screenPlaneZ CONFIG = Some 5000" "(1::real) \<le> 5000"
      "binary64 (5000 - eyeZ (setEyePosition 0 0 0)) = 5000"
      "TUNNEL_near CONFIG < 5000" "5000 \<le> TUNNEL_far CONFIG" "(70::real) \<noteq> 0"
      "\<bar>- 31998 :: real\<bar> \<le> 2 ^ 16" "\<bar>eyeX (setEyePosition 0 0 0)\<bar> \<le> 2 ^ 16"
      "\<bar>70 :: real\<bar> \<le> 2 ^ 10" "\<bar>STEREO_eyeToScreen CONFIG\<bar> \<le> 2 ^ 10"
      "\<bar>WIDTH CONFIG\<bar> \<le> 2 ^ 16"
    by (simp_all add: CONFIG_def setEyePosition_def binary64_numeral)
  from projectPoint64_parallax_bound [OF h, of 0] h show ?thesis
    by blast
qed

text \<open>
  Claim C6 as stated fails: at that point the two calls return
  \<open>0.01999999999998181\<close> and \<open>0.020000000000038654\<close>, two different binary64 numbers.
\<close>

theorem projectPoint64_parallax_counterexample:
  "STEREO_screenPlaneZ CONFIG = Some 5000 \<and> (5000::real) \<noteq> 0
   \<and> binary64 (5000 - eyeZ (setEyePosition 0 0 0)) = 5000
   \<and> TUNNEL_near CONFIG < 5000 \<and> 5000 \<le> TUNNEL_far CONFIG \<and> (70::real) \<noteq> 0
   \<and> projected.x (projectPoint64 CONFIG (setEyePosition 0 0 0) (- 31998) 0 5000 70)
       = 43980465111 / 2199023255552
   \<and> projected.x (projectPoint64 CONFIG (setEyePosition 0 0 0) (- 31998) 0 5000 (- 70))
       = 351843720889 / 17592186044416
   \<and> projected.x (projectPoint64 CONFIG (setEyePosition 0 0 0) (- 31998) 0 5000 70)
       \<noteq> projected.x (projectPoint64 CONFIG (setEyePosition 0 0 0) (- 31998) 0 5000 (- 70))"
proof -
  have h: "STEREO_screenPlaneZ CONFIG = Some 5000" "(5000::real) \<noteq> 0"
      "binary64 (5000 - eyeZ (setEyePosition 0 0 0)) = 5000"
      "TUNNEL_near CONFIG < 5000" "5000 \<le> TUNNEL_far CONFIG" "(70::real) \<noteq> 0"
    by (simp_all add: CONFIG_def setEyePosition_def binary64_numeral)
  have ne: "(43980465111 / 2199023255552 :: real) \<noteq> 351843720889 / 17592186044416"
    by simp
  show ?thesis
    unfolding projectPoint64_left_eye projectPoint64_right_eye using h ne by blast
qed

subsection \<open>The draw pass\<close>





end
